theory Spec2Isabelle
  imports Complex_Main
begin

section \<open>Common data: errors, points, the inertia tensor, array reads\<close>

text \<open>
  The Python sources compute with floating-point numbers; the embedding reads them as
  real numbers, so rounding is outside the model. Every exception the sources can
  raise is a value of \<open>error\<close>; a function that can raise returns \<open>error + 'a\<close>.
\<close>

datatype error = IndexError | ValueError | ZeroDivisionError | NameError | TiglError

type_synonym point = "real \<times> real \<times> real"

text \<open>The six accumulators \<open>Ixx, Iyy, Izz, Ixy, Iyz, Ixz\<close> of the inertia functions.\<close>

record tensor =
  Ixx :: real
  Iyy :: real
  Izz :: real
  Ixy :: real
  Iyz :: real
  Ixz :: real

definition zero_tensor :: tensor where
  "zero_tensor = \<lparr>Ixx = 0, Iyy = 0, Izz = 0, Ixy = 0, Iyz = 0, Ixz = 0\<rparr>"

text \<open>
  Sequencing of computations that may raise: the first error ends the computation.
\<close>

definition ebind :: "error + 'a \<Rightarrow> ('a \<Rightarrow> error + 'b) \<Rightarrow> error + 'b" where
  "ebind m f = (case m of Inl e \<Rightarrow> Inl e | Inr x \<Rightarrow> f x)"

text \<open>
  Python and numpy indexing \<open>xs[i]\<close>: a negative index counts from the end, an index
  out of range raises IndexError.
\<close>

definition py_index :: "nat \<Rightarrow> int \<Rightarrow> nat option" where
  "py_index n i =
     (if 0 \<le> i \<and> i < int n then Some (nat i)
      else if - int n \<le> i \<and> i < 0 then Some (nat (int n + i))
      else None)"

definition py_nth :: "'a list \<Rightarrow> int \<Rightarrow> error + 'a" where
  "py_nth xs i =
     (case py_index (length xs) i of None \<Rightarrow> Inl IndexError | Some k \<Rightarrow> Inr (xs ! k))"

text \<open>\<open>arr[r][c]\<close> and \<open>arr[r, c]\<close> on a two-dimensional array, stored as its list of rows.\<close>

definition np2 :: "'a list list \<Rightarrow> int \<Rightarrow> int \<Rightarrow> error + 'a" where
  "np2 arr r c = ebind (py_nth arr r) (\<lambda>row. py_nth row c)"

section \<open>lumpedmassesinertia.py: engine\_inertia\<close>

text \<open>
  \<open>EngineData\<close> as \<open>engine_inertia\<close> reads it: the number of engines \<open>NE\<close>, the
  array \<open>EN_PLACEMENT\<close> (one row of three coordinates per engine) and the mass
  \<open>en_mass\<close> of one engine.
\<close>

record EngineData =
  NE :: int
  EN_PLACEMENT :: "point list"
  en_mass :: real

text \<open>
  The body of \<open>for e in range(0, EngineData.NE)\<close>, lines 301 to 310. The last
  assignment is the source's: \<open>Ixz += EngineData.en_mass * cx * cx\<close>.
\<close>

fun engine_loop :: "point \<Rightarrow> EngineData \<Rightarrow> nat list \<Rightarrow> tensor \<Rightarrow> error + tensor" where
  "engine_loop center_of_gravity ed [] t = Inr t"
| "engine_loop center_of_gravity ed (e # es) t =
     ebind (py_nth (EN_PLACEMENT ed) (int e)) (\<lambda>(px, py, pz).
       (case center_of_gravity of (gx, gy, gz) \<Rightarrow>
         (let cx = px - gx; cy = py - gy; cz = pz - gz
          in engine_loop center_of_gravity ed es
               \<lparr>Ixx = Ixx t + en_mass ed * (cy\<^sup>2 + cz\<^sup>2),
                Iyy = Iyy t + en_mass ed * (cx\<^sup>2 + cz\<^sup>2),
                Izz = Izz t + en_mass ed * (cx\<^sup>2 + cy\<^sup>2),
                Ixy = Ixy t + en_mass ed * cx * cy,
                Iyz = Iyz t + en_mass ed * cy * cz,
                Ixz = Ixz t + en_mass ed * cx * cx\<rparr>)))"

definition engine_inertia :: "point \<Rightarrow> EngineData \<Rightarrow> error + tensor" where
  "engine_inertia center_of_gravity ed =
     engine_loop center_of_gravity ed [0 ..< nat (NE ed)] zero_tensor"

text \<open>
  What the claim C3 expects of the returned \<open>Ixz\<close>: the sum over the engines of
  \<open>mass * dx * dz\<close>.
\<close>

definition Ixz_parallel_axis :: "point \<Rightarrow> EngineData \<Rightarrow> real" where
  "Ixz_parallel_axis center_of_gravity ed =
     (\<Sum>(px, py, pz) \<leftarrow> take (nat (NE ed)) (EN_PLACEMENT ed).
        en_mass ed * (px - fst center_of_gravity) * (pz - snd (snd center_of_gravity)))"

section \<open>lumpedmassesinertia.py: what fuselage\_inertia and wing\_inertia share\<close>

text \<open>
  The TiGL handle is the external geometry oracle. Each query the sources make is a
  field; a query may fail (\<open>TiglError\<close>). Wing, fuselage and segment indices count
  from 1; the last two arguments are the parametric coordinates.
\<close>

record tigl_handle =
  fuselageGetPoint :: "nat \<Rightarrow> nat \<Rightarrow> real \<Rightarrow> real \<Rightarrow> error + point"
  wingGetLowerPoint :: "nat \<Rightarrow> nat \<Rightarrow> real \<Rightarrow> real \<Rightarrow> error + point"
  wingGetUpperPoint :: "nat \<Rightarrow> nat \<Rightarrow> real \<Rightarrow> real \<Rightarrow> error + point"
  wingGetChordPoint :: "nat \<Rightarrow> nat \<Rightarrow> real \<Rightarrow> real \<Rightarrow> error + point"
  wingGetInnerSectionAndElementIndex :: "nat \<Rightarrow> nat \<Rightarrow> error + (nat \<times> nat)"
  wingGetOuterSectionAndElementIndex :: "nat \<Rightarrow> nat \<Rightarrow> error + (nat \<times> nat)"

text \<open>A list comprehension over calls that may raise: the first error ends it.\<close>

fun emap :: "('a \<Rightarrow> error + 'b) \<Rightarrow> 'a list \<Rightarrow> error + 'b list" where
  "emap f [] = Inr []"
| "emap f (x # xs) = ebind (f x) (\<lambda>y. ebind (emap f xs) (\<lambda>ys. Inr (y # ys)))"

text \<open>\<open>int(x)\<close> on a float: truncation towards zero.\<close>

definition py_int :: "real \<Rightarrow> int" where
  "py_int x = (if 0 \<le> x then \<lfloor>x\<rfloor> else \<lceil>x\<rceil>)"

text \<open>
  A subdivision count, lines 85 to 95 and 197 to 199:
  \<open>subd = math.ceil(length / SPACING)\<close> followed by \<open>if subd == 0: subd = 1\<close>.
  A zero \<open>SPACING\<close> is a division by zero: ZeroDivisionError on Python floats; on
  numpy floats the quotient is infinite or not a number and its conversion to an
  integer raises. The model raises in both cases.
\<close>

definition subdivisions :: "real \<Rightarrow> real \<Rightarrow> error + int" where
  "subdivisions len SPACING =
     (if SPACING = 0 then Inl ZeroDivisionError
      else (let subd = \<lceil>len / SPACING\<rceil> in Inr (if subd = 0 then 1 else subd)))"

text \<open>
  The sources keep a point cloud in three lists (\<open>fx, fy, fz\<close>; \<open>wx, wy, wz\<close>;
  \<open>swx, swy, swz\<close>) that are always extended together; the model keeps the list of
  the points. The six sums of lines 125 to 133, 233 to 241 and 262 to 270 over a
  cloud, with the mass \<open>M\<close> of one point, added to the accumulators.
\<close>

definition accumulate :: "real \<Rightarrow> point \<Rightarrow> point list \<Rightarrow> tensor \<Rightarrow> tensor" where
  "accumulate M center_of_gravity ps t =
     (case center_of_gravity of (gx, gy, gz) \<Rightarrow>
       (let wc = map (\<lambda>(x, y, z). (x - gx, y - gy, z - gz)) ps
        in \<lparr>Ixx = Ixx t + (\<Sum>(wcx, wcy, wcz) \<leftarrow> wc. M * (wcy\<^sup>2 + wcz\<^sup>2)),
            Iyy = Iyy t + (\<Sum>(wcx, wcy, wcz) \<leftarrow> wc. M * (wcx\<^sup>2 + wcz\<^sup>2)),
            Izz = Izz t + (\<Sum>(wcx, wcy, wcz) \<leftarrow> wc. M * (wcx\<^sup>2 + wcy\<^sup>2)),
            Ixy = Ixy t + (\<Sum>(wcx, wcy, wcz) \<leftarrow> wc. M * wcx * wcy),
            Iyz = Iyz t + (\<Sum>(wcx, wcy, wcz) \<leftarrow> wc. M * wcy * wcz),
            Ixz = Ixz t + (\<Sum>(wcx, wcy, wcz) \<leftarrow> wc. M * wcx * wcz)\<rparr>))"

text \<open>
  What an inertia function has built so far: the lumped nodes (\<open>sfx, sfy, sfz\<close> or
  \<open>swx, swy, swz\<close>) and the six accumulators. The sources do not return the masses
  of the nodes; \<open>node_mass\<close> and \<open>mirror_mass\<close> record them for the theorems: the
  mass \<open>M\<close> of every sampled node, and of every mirrored node, in the order the nodes
  are made.
\<close>

record lumped =
  nodes :: "point list"
  inertia :: tensor
  node_mass :: "real list"
  mirror_mass :: "real list"

definition no_nodes :: lumped where
  "no_nodes = \<lparr>nodes = [], inertia = zero_tensor, node_mass = [], mirror_mass = []\<rparr>"

text \<open>
  The entry \<open>mass_seg_i[r, c]\<close> the sources divide among the points of a segment,
  for the statements about masses: 0 where the array has no such entry (the sources
  raise there).
\<close>

definition supplied_mass :: "real list list \<Rightarrow> int \<Rightarrow> int \<Rightarrow> real" where
  "supplied_mass mass_seg_i r c = (case np2 mass_seg_i r c of Inl e \<Rightarrow> 0 | Inr m \<Rightarrow> m)"

section \<open>lumpedmassesinertia.py: wing\_inertia\<close>

text \<open>
  The fields of \<open>AircraftWingGeometry\<close> the modelled functions read. The array
  \<open>w_seg_sec\<close>, indexed \<open>[row, wing, field]\<close> in the source, is kept wing by wing:
  \<open>w_seg_sec ! (w - 1)\<close> is the list of the rows \<open>(start section, end section,
  segment)\<close> of wing \<open>w\<close>. The two-dimensional arrays are lists of rows.
\<close>

record AircraftWingGeometry =
  w_nb :: nat
  wing_nb :: nat
  wing_sym :: "nat list"
  wing_seg_nb :: "nat list"
  wing_plt_area :: "real list"
  w_seg_sec :: "(nat \<times> nat \<times> nat) list list"
  wing_seg_length :: "real list list"
  wing_center_seg_point :: "point list list"

text \<open>
  Lines 186 to 189: \<open>DEN\<close> is the sum of \<open>range(int(subd_c + 2))\<close> and
  \<open>zeta = 1.0 / DEN\<close>, a division of Python floats.
\<close>

definition wing_DEN :: "real \<Rightarrow> real" where
  "wing_DEN subd_c = (\<Sum>d \<leftarrow> [0 ..< nat (py_int (subd_c + 2))]. real d)"

definition wing_zeta :: "real \<Rightarrow> error + real" where
  "wing_zeta subd_c =
     (if wing_DEN subd_c = 0 then Inl ZeroDivisionError else Inr (1 / wing_DEN subd_c))"

text \<open>
  Lines 219 to 223: the values \<open>ze\<close> takes in \<open>for k in range(int(subd_c) + 1)\<close>,
  each one passed to \<open>wingGetLowerPoint\<close> and \<open>wingGetUpperPoint\<close>.
\<close>

fun chord_params :: "real \<Rightarrow> real \<Rightarrow> real \<Rightarrow> nat list \<Rightarrow> real list" where
  "chord_params ZLE zeta ze [] = []"
| "chord_params ZLE zeta ze (k # ks) =
     (let ze' = (if ZLE = 0 then ze + real k * zeta
                 else if ZLE = 1 then ze - real k * zeta
                 else ze)
      in ze' # chord_params ZLE zeta ze' ks)"

text \<open>
  Lines 204 to 231, one spanwise station \<open>et\<close> of segment \<open>i\<close> of wing \<open>w\<close>: the
  two points of the lower surface at \<open>0.0\<close> and \<open>1.0\<close>, then a lower and an upper
  point for every \<open>ze\<close>.
\<close>

definition wing_station ::
  "tigl_handle \<Rightarrow> nat \<Rightarrow> nat \<Rightarrow> real \<Rightarrow> real \<Rightarrow> real \<Rightarrow> error + point list" where
  "wing_station tigl w i et zeta subd_c =
     ebind (wingGetLowerPoint tigl w i et 0) (\<lambda>le.
     ebind (wingGetLowerPoint tigl w i et 1) (\<lambda>le2.
       (let ZLE = (if fst le < fst le2 then 0 else 1)
        in ebind
             (emap (\<lambda>ze. ebind (wingGetLowerPoint tigl w i et ze) (\<lambda>l.
                          ebind (wingGetUpperPoint tigl w i et ze) (\<lambda>u. Inr [l, u])))
                (chord_params ZLE zeta ZLE [0 ..< nat (py_int subd_c + 1)]))
             (\<lambda>pts. Inr ([le, le2] @ concat pts)))))"

text \<open>
  Lines 242 to 254: the sign arrays \<open>symx, symy, symz\<close> are constant over the
  cloud; the model keeps their common entries. TiGL's symmetry codes are 0 to 3. For
  another code the source assigns none of the three arrays and reads them unbound (or
  as an earlier segment left them); the model raises NameError there.
\<close>

definition wing_inertia_sym :: "nat \<Rightarrow> error + (real \<times> real \<times> real)" where
  "wing_inertia_sym code =
     (if code = 1 then Inr (1, 1, -1)
      else if code = 2 then Inr (1, -1, 1)
      else if code = 3 then Inr (-1, 1, 1)
      else Inl NameError)"

text \<open>Lines 255 to 257: \<open>wx_t = wx * symx\<close>, \<open>wy_t = wy * symy\<close>, \<open>wz_t = wz * symz\<close>.\<close>

definition mirrored :: "real \<times> real \<times> real \<Rightarrow> point list \<Rightarrow> point list" where
  "mirrored s ps =
     (case s of (symx, symy, symz) \<Rightarrow> map (\<lambda>(x, y, z). (x * symx, y * symy, z * symz)) ps)"

text \<open>
  Lines 193 to 232: the cloud \<open>wx, wy, wz\<close> of segment \<open>i\<close> of wing \<open>w\<close> and
  the mass \<open>mass_seg_i[int(i)-1, fuse+w+a-1]\<close> of the segment.
\<close>

definition wing_segment_cloud ::
  "real \<Rightarrow> real \<Rightarrow> nat \<Rightarrow> real list list \<Rightarrow> AircraftWingGeometry \<Rightarrow> tigl_handle
     \<Rightarrow> real \<Rightarrow> nat \<Rightarrow> nat \<Rightarrow> nat \<Rightarrow> error + (point list \<times> real)" where
  "wing_segment_cloud subd_c SPACING fuse mass_seg_i awg tigl zeta w a i =
     ebind (np2 (wing_seg_length awg) (int i - 1) (int (w + a) - 1)) (\<lambda>seg_length.
     ebind (subdivisions seg_length SPACING) (\<lambda>subd_l.
     ebind (np2 (wing_center_seg_point awg) (int i - 1) (int (w + a) - 1)) (\<lambda>c.
     ebind (emap (\<lambda>j. wing_station tigl w i (real j * (1 / real_of_int subd_l)) zeta subd_c)
              [0 ..< nat (subd_l + 1)]) (\<lambda>stations.
     ebind (np2 mass_seg_i (int i - 1) (int (fuse + w + a) - 1)) (\<lambda>mass.
       Inr (concat stations, mass))))))"

text \<open>
  Lines 124 to 133 and 232 to 241: \<open>M\<close> is the mass of the segment divided by the
  number of points of its cloud; the cloud joins the lumped nodes and its six sums the
  accumulators.
\<close>

definition add_cloud :: "real \<Rightarrow> point \<Rightarrow> point list \<Rightarrow> lumped \<Rightarrow> lumped" where
  "add_cloud mass center_of_gravity wx st =
     (let M = mass / real (length wx)
      in st\<lparr>nodes := nodes st @ wx,
            inertia := accumulate M center_of_gravity wx (inertia st),
            node_mass := node_mass st @ replicate (length wx) M\<rparr>)"

text \<open>Lines 258 to 270: the same for the mirrored cloud \<open>wx_t, wy_t, wz_t\<close>.\<close>

definition add_mirrored_cloud :: "real \<Rightarrow> point \<Rightarrow> point list \<Rightarrow> lumped \<Rightarrow> lumped" where
  "add_mirrored_cloud mass center_of_gravity wx_t st =
     (let M = mass / real (length wx_t)
      in st\<lparr>nodes := nodes st @ wx_t,
            inertia := accumulate M center_of_gravity wx_t (inertia st),
            mirror_mass := mirror_mass st @ replicate (length wx_t) M\<rparr>)"

text \<open>Lines 193 to 270: one segment \<open>i\<close> of wing \<open>w\<close>.\<close>

definition wing_segment ::
  "real \<Rightarrow> real \<Rightarrow> nat \<Rightarrow> point \<Rightarrow> real list list \<Rightarrow> AircraftWingGeometry \<Rightarrow> tigl_handle
     \<Rightarrow> real \<Rightarrow> nat \<Rightarrow> nat \<Rightarrow> nat \<Rightarrow> lumped \<Rightarrow> error + lumped" where
  "wing_segment subd_c SPACING fuse center_of_gravity mass_seg_i awg tigl zeta w a i st =
     ebind (wing_segment_cloud subd_c SPACING fuse mass_seg_i awg tigl zeta w a i)
       (\<lambda>(wx, mass).
     ebind (py_nth (wing_sym awg) (int w - 1)) (\<lambda>sym.
       (let st1 = add_cloud mass center_of_gravity wx st
        in if sym \<noteq> 0
           then ebind (wing_inertia_sym sym) (\<lambda>s.
                  Inr (add_mirrored_cloud mass center_of_gravity (mirrored s wx) st1))
           else Inr st1)))"

text \<open>
  Lines 190 to 192: \<open>for i in awg.w_seg_sec[:, w-1, 2]\<close>, left at the first
  segment number 0 (a padding row).
\<close>

fun wing_segments ::
  "real \<Rightarrow> real \<Rightarrow> nat \<Rightarrow> point \<Rightarrow> real list list \<Rightarrow> AircraftWingGeometry \<Rightarrow> tigl_handle
     \<Rightarrow> real \<Rightarrow> nat \<Rightarrow> nat \<Rightarrow> nat list \<Rightarrow> lumped \<Rightarrow> error + lumped" where
  "wing_segments subd_c SPACING fuse cog mass_seg_i awg tigl zeta w a [] st = Inr st"
| "wing_segments subd_c SPACING fuse cog mass_seg_i awg tigl zeta w a (i # is) st =
     (if i = 0 then Inr st
      else ebind (wing_segment subd_c SPACING fuse cog mass_seg_i awg tigl zeta w a i st)
             (wing_segments subd_c SPACING fuse cog mass_seg_i awg tigl zeta w a is))"

text \<open>
  Lines 185 to 272: \<open>for w in range(1, awg.w_nb + 1)\<close>; \<open>a\<close> counts the wings with a
  symmetry plane met so far.
\<close>

fun wing_loop ::
  "real \<Rightarrow> real \<Rightarrow> nat \<Rightarrow> point \<Rightarrow> real list list \<Rightarrow> AircraftWingGeometry \<Rightarrow> tigl_handle
     \<Rightarrow> nat list \<Rightarrow> nat \<Rightarrow> lumped \<Rightarrow> error + lumped" where
  "wing_loop subd_c SPACING fuse cog mass_seg_i awg tigl [] a st = Inr st"
| "wing_loop subd_c SPACING fuse cog mass_seg_i awg tigl (w # ws) a st =
     ebind (wing_zeta subd_c) (\<lambda>zeta.
     ebind (py_nth (w_seg_sec awg) (int w - 1)) (\<lambda>rows.
     ebind (wing_segments subd_c SPACING fuse cog mass_seg_i awg tigl zeta w a
              (map (\<lambda>(s0, s1, j). j) rows) st) (\<lambda>st'.
     ebind (py_nth (wing_sym awg) (int w - 1)) (\<lambda>sym.
       wing_loop subd_c SPACING fuse cog mass_seg_i awg tigl ws
         (if sym \<noteq> 0 then a + 1 else a) st'))))"

definition wing_inertia ::
  "real \<Rightarrow> real \<Rightarrow> nat \<Rightarrow> point \<Rightarrow> real list list \<Rightarrow> AircraftWingGeometry \<Rightarrow> tigl_handle
     \<Rightarrow> error + lumped" where
  "wing_inertia subd_c SPACING fuse center_of_gravity mass_seg_i awg tigl =
     wing_loop subd_c SPACING fuse center_of_gravity mass_seg_i awg tigl
       [1 ..< w_nb awg + 1] 0 no_nodes"

section \<open>lumpedmassesinertia.py: fuselage\_inertia\<close>

text \<open>
  The fields of \<open>AircraftFuseGeometry\<close> that \<open>fuselage_inertia\<close> reads;
  \<open>f_seg_sec\<close> is kept fuselage by fuselage, as \<open>w_seg_sec\<close> is.
\<close>

record AircraftFuseGeometry =
  f_nb :: nat
  f_seg_sec :: "(nat \<times> nat \<times> nat) list list"
  fuse_seg_length :: "real list list"
  fuse_sec_per :: "real list list"
  fuse_sec_width :: "real list list"
  fuse_center_section_point :: "point list list"

text \<open>
  Lines 85 to 95: the numbers of subdivisions of segment \<open>i\<close> of fuselage \<open>f\<close>
  along the longitudinal axis, along the perimeter and along the radial axis.
\<close>

definition fuse_subdivisions ::
  "real \<Rightarrow> AircraftFuseGeometry \<Rightarrow> nat \<Rightarrow> nat \<Rightarrow> error + (int \<times> int \<times> int)" where
  "fuse_subdivisions SPACING afg f i =
     ebind (np2 (fuse_seg_length afg) (int i - 1) (int f - 1)) (\<lambda>seg_length.
     ebind (subdivisions seg_length SPACING) (\<lambda>subd_l.
     ebind (np2 (fuse_sec_per afg) (int i - 1) (int f - 1)) (\<lambda>per.
     ebind (subdivisions per SPACING) (\<lambda>SUBD_C0.
     ebind (np2 (fuse_sec_width afg) (int i - 1) (int f - 1)) (\<lambda>width.
     ebind (subdivisions (width / 2) SPACING) (\<lambda>subd_r.
       Inr (subd_l, SUBD_C0, subd_r)))))))"

text \<open>
  Lines 98 and 99: the radial fractions \<open>D\<close>. \<open>D0[-1]\<close> raises IndexError when
  \<open>np.arange(subd_r * SUBD_C0)\<close> is empty.
\<close>

definition fuse_D :: "int \<Rightarrow> int \<Rightarrow> error + real list" where
  "fuse_D subd_r SUBD_C0 =
     (let D0 = map (\<lambda>m. sqrt (real m / real_of_int (subd_r * SUBD_C0)))
                 [0 ..< nat (subd_r * SUBD_C0)]
      in if D0 = [] then Inl IndexError
         else Inr (filter (\<lambda>t. \<not> t < 0) (map (\<lambda>d. d - (last D0 - 98 / 100)) D0)))"

text \<open>
  Lines 113 to 117: the interior points of one station, placed around the centre
  \<open>(yc, zc)\<close> from the last perimeter point \<open>(x0, y0, z0)\<close>.
\<close>

definition spokes :: "point \<Rightarrow> real \<times> real \<Rightarrow> real list \<Rightarrow> point list" where
  "spokes p0 c D =
     (case p0 of (x0, y0, z0) \<Rightarrow> (case c of (yc, zc) \<Rightarrow>
       (let deltar = map (\<lambda>d. sqrt ((y0 - yc)\<^sup>2 + (z0 - zc)\<^sup>2) * d) D;
            theta = map (\<lambda>n. pi * (3 - sqrt 5) * real n) [0 ..< length D]
        in map (\<lambda>(r, th). (x0, yc + r * cos th, zc + r * sin th)) (zip deltar theta))))"

text \<open>
  Lines 101 to 123: \<open>for j in range(int(subd_l) + 1)\<close>. The pair carried along is
  the cloud \<open>fx, fy, fz\<close> and the point \<open>(x0, y0, z0)\<close> the last call of
  \<open>fuselageGetPoint\<close> returned (none before the first call: reading it then is a
  NameError).
\<close>

fun fuse_stations ::
  "tigl_handle \<Rightarrow> nat \<Rightarrow> nat \<Rightarrow> real \<Rightarrow> real \<Rightarrow> int \<Rightarrow> int \<Rightarrow> real list \<Rightarrow> real \<times> real
     \<Rightarrow> nat list \<Rightarrow> point list \<times> point option \<Rightarrow> error + (point list \<times> point option)" where
  "fuse_stations tigl f i eta zeta SUBD_C0 subd_r D c [] acc = Inr acc"
| "fuse_stations tigl f i eta zeta SUBD_C0 subd_r D c (j # js) (fx, p0) =
     ebind (emap (\<lambda>k. fuselageGetPoint tigl f i (real j * eta) (real k * zeta))
              [0 ..< nat (SUBD_C0 + 1)]) (\<lambda>ring.
       (let p0' = (if ring = [] then p0 else Some (last ring))
        in if subd_r > 0
           then (case p0' of
                   None \<Rightarrow> Inl NameError
                 | Some p \<Rightarrow> fuse_stations tigl f i eta zeta SUBD_C0 subd_r D c js
                              (fx @ ring @ spokes p c D, p0'))
           else fuse_stations tigl f i eta zeta SUBD_C0 subd_r D c js (fx @ ring, p0')))"

text \<open>Lines 81 to 133: one segment \<open>i\<close> of fuselage \<open>f\<close>.\<close>

definition fuse_segment ::
  "real \<Rightarrow> point \<Rightarrow> real list list \<Rightarrow> AircraftFuseGeometry \<Rightarrow> tigl_handle \<Rightarrow> nat \<Rightarrow> nat
     \<Rightarrow> lumped \<times> point option \<Rightarrow> error + (lumped \<times> point option)" where
  "fuse_segment SPACING center_of_gravity mass_seg_i afg tigl f i acc =
     (case acc of (st, p0) \<Rightarrow>
     ebind (fuse_subdivisions SPACING afg f i) (\<lambda>(subd_l, SUBD_C0, subd_r).
     ebind (fuse_D subd_r SUBD_C0) (\<lambda>D.
     ebind (np2 (fuse_center_section_point afg) (int i - 1) (int f - 1)) (\<lambda>(xc, yc, zc).
     ebind (fuse_stations tigl f i (1 / real_of_int subd_l) (1 / real_of_int SUBD_C0)
              SUBD_C0 subd_r D (yc, zc) [0 ..< nat (subd_l + 1)] ([], p0)) (\<lambda>(fx, p0').
     ebind (np2 mass_seg_i (int i - 1) (int f - 1)) (\<lambda>mass.
       Inr (add_cloud mass center_of_gravity fx st, p0')))))))"

text \<open>Line 80: \<open>for i in afg.f_seg_sec[:, f-1, 2]\<close>; every row is processed.\<close>

fun fuse_segments ::
  "real \<Rightarrow> point \<Rightarrow> real list list \<Rightarrow> AircraftFuseGeometry \<Rightarrow> tigl_handle \<Rightarrow> nat \<Rightarrow> nat list
     \<Rightarrow> lumped \<times> point option \<Rightarrow> error + (lumped \<times> point option)" where
  "fuse_segments SPACING cog mass_seg_i afg tigl f [] acc = Inr acc"
| "fuse_segments SPACING cog mass_seg_i afg tigl f (i # is) acc =
     ebind (fuse_segment SPACING cog mass_seg_i afg tigl f i acc)
       (fuse_segments SPACING cog mass_seg_i afg tigl f is)"

text \<open>Line 79: \<open>for f in range(1, afg.f_nb + 1)\<close>.\<close>

fun fuse_loop ::
  "real \<Rightarrow> point \<Rightarrow> real list list \<Rightarrow> AircraftFuseGeometry \<Rightarrow> tigl_handle \<Rightarrow> nat list
     \<Rightarrow> lumped \<times> point option \<Rightarrow> error + (lumped \<times> point option)" where
  "fuse_loop SPACING cog mass_seg_i afg tigl [] acc = Inr acc"
| "fuse_loop SPACING cog mass_seg_i afg tigl (f # fs) acc =
     ebind (py_nth (f_seg_sec afg) (int f - 1)) (\<lambda>rows.
     ebind (fuse_segments SPACING cog mass_seg_i afg tigl f (map (\<lambda>(s0, s1, j). j) rows) acc)
       (fuse_loop SPACING cog mass_seg_i afg tigl fs))"

definition fuselage_inertia ::
  "real \<Rightarrow> point \<Rightarrow> real list list \<Rightarrow> AircraftFuseGeometry \<Rightarrow> tigl_handle \<Rightarrow> error + lumped" where
  "fuselage_inertia SPACING center_of_gravity mass_seg_i afg tigl =
     ebind (fuse_loop SPACING center_of_gravity mass_seg_i afg tigl [1 ..< f_nb afg + 1]
              (no_nodes, None))
       (\<lambda>(st, p0). Inr st)"

section \<open>bwbwingsanalysis.py: geom\_eval and getwingsegmentlength\<close>

text \<open>
  Lines 356 to 368 of \<open>geom_eval\<close>: the signs \<open>symx, symy, symz\<close> of a wing with
  a symmetry plane, three separate tests. A code other than 1, 2 and 3 assigns none of
  them; the model raises NameError there, as \<open>wing_inertia_sym\<close> does.
\<close>

definition geom_eval_sym :: "nat \<Rightarrow> error + (real \<times> real \<times> real)" where
  "geom_eval_sym code =
     (if code = 3 then Inr (-1, 1, 1)
      else if code = 2 then Inr (1, -1, 1)
      else if code = 1 then Inr (1, 1, -1)
      else Inl NameError)"

text \<open>
  Lines 356 to 376: column \<open>i\<close> of \<open>awg.wing_center_seg_point\<close> (the mirrored
  wing) becomes column \<open>i - 1\<close> (the wing itself) times the signs, coordinate by
  coordinate. The array is the list of its rows, \<open>ncols\<close> its number of columns
  (\<open>awg.wing_nb\<close>); the loop variable \<open>i\<close> is at least 1.
\<close>

definition geom_eval_mirror ::
  "nat \<Rightarrow> nat \<Rightarrow> nat \<Rightarrow> point list list \<Rightarrow> error + point list list" where
  "geom_eval_mirror ncols code i arr =
     (if code \<noteq> 0
      then ebind (geom_eval_sym code) (\<lambda>(symx, symy, symz).
             if 1 \<le> i \<and> i < ncols
             then Inr (map (\<lambda>row. row[i := (case row ! (i - 1) of
                                               (x, y, z) \<Rightarrow> (x * symx, y * symy, z * symz))])
                        arr)
             else Inl IndexError)
      else Inr arr)"

text \<open>Line 163: the length of a segment from the centre points of its two sections.\<close>

definition seg_length :: "point \<Rightarrow> point \<Rightarrow> real" where
  "seg_length p1 p2 =
     (case p1 of (x1, y1, z1) \<Rightarrow> (case p2 of (x2, y2, z2) \<Rightarrow>
        sqrt ((x1 - x2)\<^sup>2 + (y1 - y2)\<^sup>2 + (z1 - z2)\<^sup>2)))"

text \<open>The assignment \<open>arr[r][c] = v\<close> on a two-dimensional array.\<close>

definition np2_set :: "'a list list \<Rightarrow> int \<Rightarrow> int \<Rightarrow> 'a \<Rightarrow> error + 'a list list" where
  "np2_set arr r c v =
     (case py_index (length arr) r of
        None \<Rightarrow> Inl IndexError
      | Some k \<Rightarrow>
          (case py_index (length (arr ! k)) c of
             None \<Rightarrow> Inl IndexError
           | Some m \<Rightarrow> Inr (arr[k := (arr ! k)[m := v]])))"

text \<open>
  Lines 159 to 163: \<open>for j in range(1, awg.wing_seg_nb[i-1] + 1)\<close>, filling column
  \<open>i + a - 1\<close> of \<open>awg.wing_seg_length\<close> from \<open>wing_center_section_point\<close>
  (rows: sections, columns: wings).
\<close>

fun wing_seg_lengths ::
  "point list list \<Rightarrow> nat \<Rightarrow> nat \<Rightarrow> nat list \<Rightarrow> real list list \<Rightarrow> error + real list list" where
  "wing_seg_lengths wing_center_section_point i a [] lens = Inr lens"
| "wing_seg_lengths wing_center_section_point i a (j # js) lens =
     ebind (np2 wing_center_section_point (int j - 1) (int i - 1)) (\<lambda>p1.
     ebind (np2 wing_center_section_point (int j) (int i - 1)) (\<lambda>p2.
     ebind (np2_set lens (int j - 1) (int (i + a) - 1) (seg_length p1 p2))
       (wing_seg_lengths wing_center_section_point i a js)))"

text \<open>
  Lines 158 to 166: \<open>for i in range(1, awg.w_nb + 1)\<close>; a wing with a symmetry
  plane copies its column into the next one.
\<close>

fun wing_lengths_loop ::
  "AircraftWingGeometry \<Rightarrow> point list list \<Rightarrow> nat list \<Rightarrow> nat \<Rightarrow> real list list
     \<Rightarrow> error + real list list" where
  "wing_lengths_loop awg wing_center_section_point [] a lens = Inr lens"
| "wing_lengths_loop awg wing_center_section_point (i # is) a lens =
     ebind (py_nth (wing_seg_nb awg) (int i - 1)) (\<lambda>n.
     ebind (wing_seg_lengths wing_center_section_point i a [1 ..< n + 1] lens) (\<lambda>lens1.
     ebind (py_nth (wing_sym awg) (int i - 1)) (\<lambda>sym.
       if sym \<noteq> 0
       then (if i + a < wing_nb awg
             then wing_lengths_loop awg wing_center_section_point is (a + 1)
                    (map (\<lambda>row. row[i + a := row ! (i + a - 1)]) lens1)
             else Inl IndexError)
       else wing_lengths_loop awg wing_center_section_point is a lens1)))"

text \<open>
  Lines 151 to 168; the result is the new \<open>awg.wing_seg_length\<close>.
  \<open>np.amax\<close> of an empty list raises ValueError.
\<close>

definition getwingsegmentlength ::
  "AircraftWingGeometry \<Rightarrow> point list list \<Rightarrow> error + real list list" where
  "getwingsegmentlength awg wing_center_section_point =
     (if wing_seg_nb awg = [] then Inl ValueError
      else wing_lengths_loop awg wing_center_section_point [1 ..< w_nb awg + 1] 0
             (replicate (Max (set (wing_seg_nb awg))) (replicate (wing_nb awg) 0)))"

section \<open>bwbwingsanalysis.py: check\_segment\_connection\<close>

text \<open>
  A row of \<open>seg_sec\<close> or \<open>seg_sec_reordered\<close> is \<open>(start section, end section,
  segment)\<close>; both arrays are kept wing by wing, as \<open>w_seg_sec\<close> is, and
  \<open>sec_index\<close> likewise (one column per wing). Section and segment numbers are stored
  as floats in the source and compared exactly; they are natural numbers here, and a
  row of zeros is a row nothing was written to.

  The loop variables of the function: the four values it returns, \<open>nbmax\<close> and the
  variable \<open>j\<close>, which line 118 reads after the loops that set it (\<open>None\<close>: not yet
  set, and reading it is a NameError).
\<close>

record connection =
  nbmax :: nat
  j_var :: "nat option"
  sec_nb :: "nat list"
  start_index :: "nat list"
  seg_sec_reordered :: "(nat \<times> nat \<times> nat) list list"
  sec_index :: "nat list list"

text \<open>
  Lines 88 to 93: the rows of wing \<open>i\<close>, one for each of its \<open>n\<close> segments, in an
  array of \<open>rows\<close> rows.
\<close>

definition read_segments ::
  "tigl_handle \<Rightarrow> nat \<Rightarrow> nat \<Rightarrow> nat \<Rightarrow> error + (nat \<times> nat \<times> nat) list" where
  "read_segments tigl i n rows =
     ebind (emap (\<lambda>j. ebind (wingGetInnerSectionAndElementIndex tigl i j) (\<lambda>(s0, e).
                        ebind (wingGetOuterSectionAndElementIndex tigl i j) (\<lambda>(s1, e).
                          Inr (s0, s1, j))))
              [1 ..< n + 1]) (\<lambda>seg_sec.
       if n \<le> rows then Inr (seg_sec @ replicate (rows - n) (0, 0, 0)) else Inl IndexError)"

text \<open>
  Lines 97 to 109: \<open>for j in range(2, awg.wing_seg_nb[i-1] + 1)\<close>. Carried along:
  the lowest point so far \<open>(slpx, slpy, slpz)\<close>, \<open>start_index\<close> and the row
  \<open>seg_sec_reordered[0, i-1, :]\<close>. The point compared is the one the source asks
  for: \<open>tigl.wingGetChordPoint(i, j, 1.0, 0.0)\<close>.
\<close>

fun find_root ::
  "tigl_handle \<Rightarrow> AircraftWingGeometry \<Rightarrow> real list \<Rightarrow> real list \<Rightarrow> nat
     \<Rightarrow> (nat \<times> nat \<times> nat) list \<Rightarrow> nat list \<Rightarrow> point \<times> nat list \<times> (nat \<times> nat \<times> nat)
     \<Rightarrow> error + (point \<times> nat list \<times> (nat \<times> nat \<times> nat))" where
  "find_root tigl awg wing_plt_area_xz wing_plt_area_yz i seg_sec [] acc = Inr acc"
| "find_root tigl awg wing_plt_area_xz wing_plt_area_yz i seg_sec (j # js)
     ((slpx, slpy, slpz), starts, root_row) =
     ebind (wingGetChordPoint tigl i j 1 0) (\<lambda>(x, y, z).
     ebind (py_nth (wing_plt_area awg) (int i - 1)) (\<lambda>area.
     ebind (py_nth wing_plt_area_xz (int i - 1)) (\<lambda>area_xz.
     ebind (if area > area_xz
            then ebind (py_nth wing_plt_area_yz (int i - 1)) (\<lambda>area_yz. Inr (area > area_yz))
            else Inr False) (\<lambda>horizontal.
       if (if horizontal then y < slpy else z < slpz)
       then ebind (py_nth seg_sec (int j - 1)) (\<lambda>row.
              find_root tigl awg wing_plt_area_xz wing_plt_area_yz i seg_sec js
                ((x, y, z), starts @ [j], row))
       else find_root tigl awg wing_plt_area_xz wing_plt_area_yz i seg_sec js
              ((slpx, slpy, slpz), starts, root_row)))))"

text \<open>
  Lines 110 to 113: \<open>for j in range(2, awg.wing_seg_nb[i-1] + 1)\<close>. \<open>prev\<close> is
  the row \<open>seg_sec_reordered[j-2, i-1, :]\<close>; \<open>np.where\<close> selects the rows of
  \<open>seg_sec\<close> that start at its end section, and the assignment of the selection to
  one row raises ValueError unless exactly one row is selected. The result is the list
  of the rows \<open>seg_sec_reordered[1:, i-1, :]\<close> written.
\<close>

fun chain_segments ::
  "(nat \<times> nat \<times> nat) list \<Rightarrow> nat \<times> nat \<times> nat \<Rightarrow> nat list
     \<Rightarrow> error + (nat \<times> nat \<times> nat) list" where
  "chain_segments seg_sec prev [] = Inr []"
| "chain_segments seg_sec prev (j # js) =
     (case prev of (s0, end_sec, k) \<Rightarrow>
       (case filter (\<lambda>(start, e, m). start = end_sec) seg_sec of
          [start_next] \<Rightarrow>
            ebind (chain_segments seg_sec start_next js) (\<lambda>rest. Inr (start_next # rest))
        | _ \<Rightarrow> Inl ValueError))"

text \<open>
  Lines 115 to 117: the start sections of the reordered rows 2 to \<open>n\<close>, each
  appended to \<open>wing_sec_index\<close> unless it is there already.
\<close>

fun collect_starts ::
  "(nat \<times> nat \<times> nat) list \<Rightarrow> nat list \<Rightarrow> nat list \<Rightarrow> error + nat list" where
  "collect_starts col [] wing_sec_index = Inr wing_sec_index"
| "collect_starts col (j # js) wing_sec_index =
     ebind (py_nth col (int j - 1)) (\<lambda>(s0, s1, k).
       collect_starts col js
         (if s0 \<in> set wing_sec_index then wing_sec_index else wing_sec_index @ [s0]))"

text \<open>
  Lines 86 to 125: \<open>for i in range(1, awg.w_nb + 1)\<close>. \<open>rows\<close> is the number of
  rows of \<open>seg_sec\<close> and \<open>seg_sec_reordered\<close> (the first \<open>nbmax\<close>). Line 114 reads
  \<open>seg_sec_reordered[0, 0, 0]\<close>: row 0 of wing 1, whatever the wing \<open>i\<close> is.
\<close>

fun connection_loop ::
  "tigl_handle \<Rightarrow> AircraftWingGeometry \<Rightarrow> real list \<Rightarrow> real list \<Rightarrow> nat \<Rightarrow> nat list
     \<Rightarrow> connection \<Rightarrow> error + connection" where
  "connection_loop tigl awg wing_plt_area_xz wing_plt_area_yz rows [] st = Inr st"
| "connection_loop tigl awg wing_plt_area_xz wing_plt_area_yz rows (i # is) st =
     ebind (py_nth (wing_seg_nb awg) (int i - 1)) (\<lambda>n.
     ebind (read_segments tigl i n rows) (\<lambda>seg_sec.
     ebind (wingGetChordPoint tigl i 1 0 0) (\<lambda>slp.
     ebind (py_nth seg_sec 0) (\<lambda>row0.
     ebind (find_root tigl awg wing_plt_area_xz wing_plt_area_yz i seg_sec [2 ..< n + 1]
              (slp, start_index st @ [1], row0)) (\<lambda>(slp', starts, root_row).
     ebind (chain_segments seg_sec root_row [2 ..< n + 1]) (\<lambda>chain.
       (let col = (root_row # chain) @ replicate (rows - Suc (length chain)) (0, 0, 0);
            reordered = (seg_sec_reordered st)[i - 1 := col];
            j' = (if n = 0 then j_var st else Some n)
        in ebind (np2 reordered 0 0) (\<lambda>(first, e0, k0).
           ebind (collect_starts col [2 ..< n + 1] [first]) (\<lambda>ws.
           (case j' of
              None \<Rightarrow> Inl NameError
            | Some j \<Rightarrow>
                ebind (py_nth col (int j - 1)) (\<lambda>(s0, s1, k).
                  (let wing_sec_index = (if s1 \<in> set ws then ws else ws @ [s1]);
                       nb = length wing_sec_index;
                       nbmax' = (if nb > nbmax st then nb else nbmax st);
                       resized = map (\<lambda>c. c @ replicate (nbmax' - length c) 0) (sec_index st)
                   in connection_loop tigl awg wing_plt_area_xz wing_plt_area_yz rows is
                        (st\<lparr>nbmax := nbmax', j_var := j',
                            sec_nb := sec_nb st @ [nb],
                            start_index := starts,
                            seg_sec_reordered := reordered,
                            sec_index := resized[i - 1 :=
                              wing_sec_index @ drop nb (resized ! (i - 1))]\<rparr>)))))))))))))"

text \<open>
  Lines 66 to 127. \<open>np.amax\<close> of an empty \<open>awg.wing_seg_nb\<close> raises ValueError. The
  result holds the four returned values.
\<close>

definition check_segment_connection ::
  "real list \<Rightarrow> real list \<Rightarrow> AircraftWingGeometry \<Rightarrow> tigl_handle \<Rightarrow> error + connection" where
  "check_segment_connection wing_plt_area_xz wing_plt_area_yz awg tigl =
     (if wing_seg_nb awg = [] then Inl ValueError
      else (let rows = Max (set (wing_seg_nb awg))
            in connection_loop tigl awg wing_plt_area_xz wing_plt_area_yz rows
                 [1 ..< w_nb awg + 1]
                 \<lparr>nbmax = rows, j_var = None, sec_nb = [], start_index = [],
                  seg_sec_reordered = replicate (w_nb awg) (replicate rows (0, 0, 0)),
                  sec_index = replicate (w_nb awg) (replicate rows 0)\<rparr>))"

text \<open>
  A list of rows is linked when every row starts at the section the row before it
  ends at.
\<close>

fun linked :: "(nat \<times> nat \<times> nat) list \<Rightarrow> bool" where
  "linked (a # b # rest) = (fst b = fst (snd a) \<and> linked (b # rest))"
| "linked rows = True"

section \<open>Example inputs\<close>

text \<open>
  A geometry oracle that answers every point query with the point \<open>(0, 1, 0)\<close>
  and numbers the sections of a wing along its segments; a wing of one segment with
  the symmetry code given; a fuselage of one segment.
\<close>

definition flat_tigl :: tigl_handle where
  "flat_tigl =
     \<lparr>fuselageGetPoint = (\<lambda>f i et ze. Inr (0, 1, 0)),
      wingGetLowerPoint = (\<lambda>w i et ze. Inr (0, 1, 0)),
      wingGetUpperPoint = (\<lambda>w i et ze. Inr (0, 1, 0)),
      wingGetChordPoint = (\<lambda>w i et xsi. Inr (0, 1, 0)),
      wingGetInnerSectionAndElementIndex = (\<lambda>w j. Inr (j, 1)),
      wingGetOuterSectionAndElementIndex = (\<lambda>w j. Inr (j + 1, 1))\<rparr>"

definition one_wing :: "nat \<Rightarrow> AircraftWingGeometry" where
  "one_wing code =
     \<lparr>w_nb = 1, wing_nb = (if code = 0 then 1 else 2), wing_sym = [code], wing_seg_nb = [1],
      wing_plt_area = [1], w_seg_sec = [[(1, 2, 1)]], wing_seg_length = [[1, 1]],
      wing_center_seg_point = [[(0, 1, 0), (0, 1, 0)]]\<rparr>"

definition one_fuselage :: AircraftFuseGeometry where
  "one_fuselage =
     \<lparr>f_nb = 1, f_seg_sec = [[(1, 2, 1)]], fuse_seg_length = [[1]], fuse_sec_per = [[1]],
      fuse_sec_width = [[2]], fuse_center_section_point = [[(0, 1, 0)]]\<rparr>"

text \<open>
  A wing of two segments given in reverse order: segment 1 runs from section 2 to
  section 3, segment 2 from section 1 to section 2; section \<open>s\<close> has its chord point
  at \<open>y = s - 1\<close>. The wing is horizontal (its area on the x-y plane is the
  largest).
\<close>

definition reversed_tigl :: tigl_handle where
  "reversed_tigl =
     \<lparr>fuselageGetPoint = (\<lambda>f i et ze. Inl TiglError),
      wingGetLowerPoint = (\<lambda>w i et ze. Inr (0, 0, 0)),
      wingGetUpperPoint = (\<lambda>w i et ze. Inr (0, 0, 0)),
      wingGetChordPoint = (\<lambda>w j eta xsi. Inr (0, (if j = 1 then 1 + eta else eta), 0)),
      wingGetInnerSectionAndElementIndex = (\<lambda>w j. Inr (if j = 1 then 2 else 1, 1)),
      wingGetOuterSectionAndElementIndex = (\<lambda>w j. Inr (if j = 1 then 3 else 2, 1))\<rparr>"

definition reversed_wing :: AircraftWingGeometry where
  "reversed_wing =
     \<lparr>w_nb = 1, wing_nb = 1, wing_sym = [0], wing_seg_nb = [2], wing_plt_area = [10],
      w_seg_sec = [], wing_seg_length = [], wing_center_seg_point = []\<rparr>"

text \<open>
  Two wings of one segment each: the segment of wing 1 runs from section 1 to section
  2, the segment of wing 2 from its section 2 to its section 3 (its section 1 is
  defined and not used).
\<close>

definition two_wings_tigl :: tigl_handle where
  "two_wings_tigl =
     \<lparr>fuselageGetPoint = (\<lambda>f i et ze. Inl TiglError),
      wingGetLowerPoint = (\<lambda>w i et ze. Inr (0, 0, 0)),
      wingGetUpperPoint = (\<lambda>w i et ze. Inr (0, 0, 0)),
      wingGetChordPoint = (\<lambda>w j eta xsi. Inr (0, eta, 0)),
      wingGetInnerSectionAndElementIndex = (\<lambda>w j. Inr (if w = 1 then 1 else 2, 1)),
      wingGetOuterSectionAndElementIndex = (\<lambda>w j. Inr (if w = 1 then 2 else 3, 1))\<rparr>"

definition two_wings :: AircraftWingGeometry where
  "two_wings =
     \<lparr>w_nb = 2, wing_nb = 2, wing_sym = [0, 0], wing_seg_nb = [1, 1], wing_plt_area = [10, 10],
      w_seg_sec = [], wing_seg_length = [], wing_center_seg_point = []\<rparr>"

text \<open>
  A second geometry oracle, whose one point \<open>(1, 2, 3)\<close> lies off the three
  coordinate planes.
\<close>

definition skew_tigl :: tigl_handle where
  "skew_tigl =
     \<lparr>fuselageGetPoint = (\<lambda>f i et ze. Inr (1, 2, 3)),
      wingGetLowerPoint = (\<lambda>w i et ze. Inr (1, 2, 3)),
      wingGetUpperPoint = (\<lambda>w i et ze. Inr (1, 2, 3)),
      wingGetChordPoint = (\<lambda>w i et xsi. Inr (1, 2, 3)),
      wingGetInnerSectionAndElementIndex = (\<lambda>w j. Inr (j, 1)),
      wingGetOuterSectionAndElementIndex = (\<lambda>w j. Inr (j + 1, 1))\<rparr>"

section \<open>Theorems\<close>

lemma ebind_Inr [simp]: "ebind (Inr x) f = f x"
  by (simp add: ebind_def)

lemma ebind_Inl [simp]: "ebind (Inl e) f = Inl e"
  by (simp add: ebind_def)

subsection \<open>Auxiliary facts\<close>

lemma ebind_eq_Inr: "ebind m f = Inr y \<longleftrightarrow> (\<exists>x. m = Inr x \<and> f x = Inr y)"
  by (cases m) simp_all

lemma Ixx_accumulate:
  "Ixx (accumulate M (gx, gy, gz) ps t)
     = Ixx t + (\<Sum>(x, y, z) \<leftarrow> ps. M * ((y - gy)\<^sup>2 + (z - gz)\<^sup>2))"
  by (simp add: accumulate_def o_def split_def)

lemma Iyy_accumulate:
  "Iyy (accumulate M (gx, gy, gz) ps t)
     = Iyy t + (\<Sum>(x, y, z) \<leftarrow> ps. M * ((x - gx)\<^sup>2 + (z - gz)\<^sup>2))"
  by (simp add: accumulate_def o_def split_def)

lemma Izz_accumulate:
  "Izz (accumulate M (gx, gy, gz) ps t)
     = Izz t + (\<Sum>(x, y, z) \<leftarrow> ps. M * ((x - gx)\<^sup>2 + (y - gy)\<^sup>2))"
  by (simp add: accumulate_def o_def split_def)

lemma Ixy_accumulate:
  "Ixy (accumulate M (gx, gy, gz) ps t)
     = Ixy t + (\<Sum>(x, y, z) \<leftarrow> ps. M * (x - gx) * (y - gy))"
  by (simp add: accumulate_def o_def split_def)

lemma Iyz_accumulate:
  "Iyz (accumulate M (gx, gy, gz) ps t)
     = Iyz t + (\<Sum>(x, y, z) \<leftarrow> ps. M * (y - gy) * (z - gz))"
  by (simp add: accumulate_def o_def split_def)

lemma Ixz_accumulate:
  "Ixz (accumulate M (gx, gy, gz) ps t)
     = Ixz t + (\<Sum>(x, y, z) \<leftarrow> ps. M * (x - gx) * (z - gz))"
  by (simp add: accumulate_def o_def split_def)

lemmas accumulate_fields =
  Ixx_accumulate Iyy_accumulate Izz_accumulate Ixy_accumulate Iyz_accumulate Ixz_accumulate

lemma sum_list_nonneg_prod:
  "(\<And>p. p \<in> set ps \<Longrightarrow> 0 \<le> f p) \<Longrightarrow> (0::real) \<le> sum_list (map f ps)"
  by (induction ps) auto

lemma sum_list_map_uminus: "(\<Sum>p \<leftarrow> ps. - f p) = - (\<Sum>p \<leftarrow> ps. (f p :: real))"
  by (induction ps) auto

lemma diag_nonneg:
  assumes "0 \<le> M"
  shows "Ixx t \<le> Ixx (accumulate M c ps t)" "Iyy t \<le> Iyy (accumulate M c ps t)"
        "Izz t \<le> Izz (accumulate M c ps t)"
proof -
  obtain gx gy gz where c: "c = (gx, gy, gz)" by (cases c) auto
  show "Ixx t \<le> Ixx (accumulate M c ps t)"
    unfolding c Ixx_accumulate using assms
    by (simp add: sum_list_nonneg_prod split_def)
  show "Iyy t \<le> Iyy (accumulate M c ps t)"
    unfolding c Iyy_accumulate using assms
    by (simp add: sum_list_nonneg_prod split_def)
  show "Izz t \<le> Izz (accumulate M c ps t)"
    unfolding c Izz_accumulate using assms
    by (simp add: sum_list_nonneg_prod split_def)
qed





lemma emap_length: "emap f xs = Inr ys \<Longrightarrow> length ys = length xs"
  by (induction xs arbitrary: ys) (auto simp: ebind_eq_Inr)

lemma emap_set: "emap f xs = Inr ys \<Longrightarrow> y \<in> set ys \<Longrightarrow> \<exists>x \<in> set xs. f x = Inr y"
  by (induction xs arbitrary: ys) (auto simp: ebind_eq_Inr)

lemma py_nth_in_set: "py_nth xs i = Inr x \<Longrightarrow> x \<in> set xs"
  by (auto simp: py_nth_def py_index_def split: option.splits if_splits)

lemma np2_list_all:
  "np2 arr r c = Inr v \<Longrightarrow> list_all (list_all P) arr \<Longrightarrow> P v"
  by (auto simp: np2_def ebind_eq_Inr list_all_iff dest!: py_nth_in_set)

lemma subdivisions_pos:
  assumes "subdivisions len SPACING = Inr n" and "0 < SPACING" and "0 \<le> len"
  shows "1 \<le> n"
proof -
  define c where "c = \<lceil>len / SPACING\<rceil>"
  have "0 \<le> len / SPACING" using assms(2,3) by simp
  then have "0 \<le> c" unfolding c_def by linarith
  moreover have "n = (if c = 0 then 1 else c)"
    using assms(1,2) by (auto simp: subdivisions_def c_def Let_def)
  ultimately show ?thesis by (simp split: if_splits)
qed

lemma add_cloud_mass:
  "wx \<noteq> [] \<Longrightarrow> sum_list (node_mass (add_cloud mass cog wx st)) = sum_list (node_mass st) + mass"
  "mirror_mass (add_cloud mass cog wx st) = mirror_mass st"
  by (simp_all add: add_cloud_def Let_def sum_list_replicate)

lemma add_mirrored_cloud_mass:
  "wx \<noteq> [] \<Longrightarrow> sum_list (mirror_mass (add_mirrored_cloud mass cog wx st)) = sum_list (mirror_mass st) + mass"
  "node_mass (add_mirrored_cloud mass cog wx st) = node_mass st"
  by (simp_all add: add_mirrored_cloud_def Let_def sum_list_replicate)

lemma wing_station_nonempty: "wing_station tigl w i et zeta subd_c = Inr pts \<Longrightarrow> pts \<noteq> []"
  by (auto simp: wing_station_def ebind_eq_Inr Let_def)

lemma wing_segment_cloud_nonempty:
  assumes "wing_segment_cloud subd_c SPACING fuse mass_seg_i awg tigl zeta w a i = Inr (wx, mass)"
    and "0 < SPACING" and "list_all (list_all (\<lambda>l. 0 \<le> l)) (wing_seg_length awg)"
  shows "wx \<noteq> []" and "np2 mass_seg_i (int i - 1) (int (fuse + w + a) - 1) = Inr mass"
proof -
  from assms(1) obtain seg_len subd_l stations where
    len: "np2 (wing_seg_length awg) (int i - 1) (int (w + a) - 1) = Inr seg_len"
    and sub: "subdivisions seg_len SPACING = Inr subd_l"
    and st: "emap (\<lambda>j. wing_station tigl w i (real j * (1 / real_of_int subd_l)) zeta subd_c)
              [0 ..< nat (subd_l + 1)] = Inr stations"
    and m: "np2 mass_seg_i (int i - 1) (int (fuse + w + a) - 1) = Inr mass"
    and wx: "wx = concat stations"
    unfolding wing_segment_cloud_def ebind_eq_Inr by auto
  show "np2 mass_seg_i (int i - 1) (int (fuse + w + a) - 1) = Inr mass" by (rule m)
  have "0 \<le> seg_len" using np2_list_all [OF len assms(3)] .
  then have "1 \<le> subd_l" using subdivisions_pos [OF sub assms(2)] by simp
  then have "stations \<noteq> []" using emap_length [OF st] by auto
  then obtain s where s: "s \<in> set stations" by (cases stations) auto
  then have "s \<noteq> []" using emap_set [OF st s] wing_station_nonempty by blast
  with s show "wx \<noteq> []" unfolding wx by auto
qed

lemma fuse_stations_length:
  "fuse_stations tigl f i eta zeta C0 r D c js (fx, p0) = Inr (fx', p0') \<Longrightarrow> 0 \<le> C0
     \<Longrightarrow> length fx + length js \<le> length fx'"
proof (induction js arbitrary: fx p0)
  case Nil
  then show ?case by simp
next
  case (Cons j js)
  from Cons.prems(1) obtain ring where
    ring: "emap (\<lambda>k. fuselageGetPoint tigl f i (real j * eta) (real k * zeta))
             [0 ..< nat (C0 + 1)] = Inr ring"
    and rest: "(let p0' = (if ring = [] then p0 else Some (last ring))
        in if r > 0
           then (case p0' of
                   None \<Rightarrow> Inl NameError
                 | Some p \<Rightarrow> fuse_stations tigl f i eta zeta C0 r D c js
                              (fx @ ring @ spokes p c D, p0'))
           else fuse_stations tigl f i eta zeta C0 r D c js (fx @ ring, p0')) = Inr (fx', p0')"
    by (auto simp: ebind_eq_Inr)
  have "length ring = nat (C0 + 1)" using emap_length [OF ring] by simp
  then have l: "1 \<le> length ring" using Cons.prems(2) by simp
  show ?case
  proof (cases "r > 0")
    case True
    with rest obtain p where
      "fuse_stations tigl f i eta zeta C0 r D c js
         (fx @ ring @ spokes p c D, if ring = [] then p0 else Some (last ring)) = Inr (fx', p0')"
      by (auto simp: Let_def split: option.splits)
    from Cons.IH [OF this Cons.prems(2)] l show ?thesis by simp
  next
    case False
    with rest have
      "fuse_stations tigl f i eta zeta C0 r D c js
         (fx @ ring, if ring = [] then p0 else Some (last ring)) = Inr (fx', p0')"
      by (auto simp: Let_def)
    from Cons.IH [OF this Cons.prems(2)] l show ?thesis by simp
  qed
qed

lemma wing_segments_no_mirror:
  assumes "py_nth (wing_sym awg) (int w - 1) = Inr 0"
  shows "wing_segments subd_c SPACING fuse cog mass_seg_i awg tigl zeta w a ids st = Inr st'
     \<Longrightarrow> mirror_mass st' = mirror_mass st"
proof (induction ids arbitrary: st)
  case Nil
  then show ?case by simp
next
  case (Cons i ids)
  show ?case
  proof (cases "i = 0")
    case True
    with Cons.prems show ?thesis by simp
  next
    case False
    with Cons.prems obtain st1 where
      s1: "wing_segment subd_c SPACING fuse cog mass_seg_i awg tigl zeta w a i st = Inr st1"
      and rest: "wing_segments subd_c SPACING fuse cog mass_seg_i awg tigl zeta w a ids st1 = Inr st'"
      by (auto simp: ebind_eq_Inr)
    from s1 have "mirror_mass st1 = mirror_mass st"
      unfolding wing_segment_def ebind_eq_Inr assms
      by (auto simp: add_cloud_mass)
    with Cons.IH [OF rest] show ?thesis by simp
  qed
qed

lemmas eval_defs =
  np2_def py_nth_def py_index_def subdivisions_def py_int_def Let_def upt_rec

lemma one_fuselage_runs:
  "\<exists>st' p0'. fuse_segments 1 (0, 0, 0) [[100, 100]] one_fuselage flat_tigl 1 [1] (no_nodes, None)
      = Inr (st', p0')"
  by (simp add: fuse_segment_def fuse_subdivisions_def fuse_D_def one_fuselage_def
      flat_tigl_def eval_defs)

lemma one_wing_runs:
  "\<exists>st'. wing_segments 0 1 0 (0, 0, 0) [[100, 100]] (one_wing code) flat_tigl 1 1 0 [1] no_nodes
      = Inr st'"
  if "code \<in> {0, 1, 2, 3}"
  using that
  by (auto simp add: wing_segment_def wing_segment_cloud_def wing_station_def one_wing_def
      wing_inertia_sym_def flat_tigl_def eval_defs)

lemma np2_set_same: "np2_set arr r c v = Inr arr' \<Longrightarrow> np2 arr' r c = Inr v"
  by (auto simp: np2_set_def np2_def py_nth_def py_index_def split: option.splits if_splits)

lemma np2_set_other_row:
  "np2_set arr r c v = Inr arr' \<Longrightarrow> 0 \<le> r \<Longrightarrow> 0 \<le> r' \<Longrightarrow> r' \<noteq> r
     \<Longrightarrow> np2 arr' r' c' = np2 arr r' c'"
  by (auto simp: np2_set_def np2_def py_nth_def py_index_def split: option.splits if_splits)

lemma wing_seg_lengths_keeps:
  "wing_seg_lengths wcsp i a js lens = Inr lens' \<Longrightarrow> \<forall>j \<in> set js. 1 \<le> j \<Longrightarrow> 1 \<le> k
     \<Longrightarrow> k \<notin> set js \<Longrightarrow> np2 lens' (int k - 1) c = np2 lens (int k - 1) c"
proof (induction js arbitrary: lens)
  case Nil
  then show ?case by simp
next
  case (Cons j js)
  from Cons.prems(1) obtain p1 p2 lens1 where
    s: "np2_set lens (int j - 1) (int (i + a) - 1) (seg_length p1 p2) = Inr lens1"
    and r: "wing_seg_lengths wcsp i a js lens1 = Inr lens'"
    by (auto simp: ebind_eq_Inr)
  have "np2 lens' (int k - 1) c = np2 lens1 (int k - 1) c"
    using Cons.IH [OF r] Cons.prems by simp
  also have "\<dots> = np2 lens (int k - 1) c"
    using np2_set_other_row [OF s, of "int k - 1" c] Cons.prems by auto
  finally show ?case .
qed

lemma wing_seg_lengths_entry:
  "wing_seg_lengths wcsp i a js lens = Inr lens' \<Longrightarrow> distinct js \<Longrightarrow> \<forall>j \<in> set js. 1 \<le> j
     \<Longrightarrow> k \<in> set js
     \<Longrightarrow> \<exists>p1 p2. np2 wcsp (int k - 1) (int i - 1) = Inr p1
            \<and> np2 wcsp (int k) (int i - 1) = Inr p2
            \<and> np2 lens' (int k - 1) (int (i + a) - 1) = Inr (seg_length p1 p2)"
proof (induction js arbitrary: lens)
  case Nil
  then show ?case by simp
next
  case (Cons j js)
  from Cons.prems(1) obtain p1 p2 lens1 where
    p1: "np2 wcsp (int j - 1) (int i - 1) = Inr p1"
    and p2: "np2 wcsp (int j) (int i - 1) = Inr p2"
    and s: "np2_set lens (int j - 1) (int (i + a) - 1) (seg_length p1 p2) = Inr lens1"
    and r: "wing_seg_lengths wcsp i a js lens1 = Inr lens'"
    by (auto simp: ebind_eq_Inr)
  show ?case
  proof (cases "k = j")
    case True
    have "np2 lens' (int j - 1) (int (i + a) - 1) = np2 lens1 (int j - 1) (int (i + a) - 1)"
      using wing_seg_lengths_keeps [OF r, of j] Cons.prems by auto
    with np2_set_same [OF s] p1 p2 True show ?thesis by auto
  next
    case False
    with Cons.prems have "k \<in> set js" "distinct js" "\<forall>j \<in> set js. 1 \<le> j" by auto
    from Cons.IH [OF r this(2,3,1)] show ?thesis .
  qed
qed

text \<open>
  What the chaining loop of \<open>check_segment_connection\<close> achieves when it does not
  raise: the row it starts from and the rows it writes are linked.
\<close>

lemma chain_segments_linked:
  "chain_segments seg_sec prev js = Inr chain \<Longrightarrow> linked (prev # chain)"
proof (induction js arbitrary: prev chain)
  case Nil
  then show ?case by simp
next
  case (Cons j js)
  obtain s0 end_sec k where prev: "prev = (s0, end_sec, k)" by (cases prev) auto
  from Cons.prems obtain nxt rest where
    f: "filter (\<lambda>(start, e, m). start = end_sec) seg_sec = [nxt]"
    and r: "chain_segments seg_sec nxt js = Inr rest" and c: "chain = nxt # rest"
    by (auto simp: prev ebind_eq_Inr split: list.splits)
  have "nxt \<in> set (filter (\<lambda>(start, e, m). start = end_sec) seg_sec)" by (simp add: f)
  then have "fst nxt = end_sec" by auto
  with Cons.IH [OF r] show ?case by (simp add: c prev)
qed

lemmas conn_defs =
  check_segment_connection_def read_segments_def np2_def py_nth_def py_index_def Let_def upt_rec

text \<open>
  What one segment of a wing leaves in the lumped nodes and in the six sums.
\<close>

lemma add_cloud_fields [simp]:
  "nodes (add_cloud mass cog wx st) = nodes st @ wx"
  "inertia (add_cloud mass cog wx st) = accumulate (mass / real (length wx)) cog wx (inertia st)"
  "node_mass (add_cloud mass cog wx st)
     = node_mass st @ replicate (length wx) (mass / real (length wx))"
  "mirror_mass (add_cloud mass cog wx st) = mirror_mass st"
  by (simp_all add: add_cloud_def Let_def)

lemma add_mirrored_cloud_fields [simp]:
  "nodes (add_mirrored_cloud mass cog wx st) = nodes st @ wx"
  "inertia (add_mirrored_cloud mass cog wx st)
     = accumulate (mass / real (length wx)) cog wx (inertia st)"
  "node_mass (add_mirrored_cloud mass cog wx st) = node_mass st"
  "mirror_mass (add_mirrored_cloud mass cog wx st)
     = mirror_mass st @ replicate (length wx) (mass / real (length wx))"
  by (simp_all add: add_mirrored_cloud_def Let_def)

lemma length_mirrored [simp]: "length (mirrored s wx) = length wx"
  by (cases s) (simp add: mirrored_def)

lemma wing_segment_result:
  assumes "wing_segment subd_c SPACING fuse cog mass_seg_i awg tigl zeta w a i st = Inr st'"
    and "py_nth (wing_sym awg) (int w - 1) = Inr code"
  shows "\<exists>wx mass.
      wing_segment_cloud subd_c SPACING fuse mass_seg_i awg tigl zeta w a i = Inr (wx, mass)
      \<and> (code = 0 \<longrightarrow> st' = add_cloud mass cog wx st)
      \<and> (code \<noteq> 0 \<longrightarrow> (\<exists>s. wing_inertia_sym code = Inr s
            \<and> st' = add_mirrored_cloud mass cog (mirrored s wx) (add_cloud mass cog wx st)))"
  using assms(1) unfolding wing_segment_def ebind_eq_Inr assms(2)
  by (auto simp: Let_def ebind_eq_Inr split: if_splits)

lemma wing_inertia_sym_cases:
  "wing_inertia_sym code = Inr s \<Longrightarrow>
     (code = 1 \<and> s = (1, 1, -1)) \<or> (code = 2 \<and> s = (1, -1, 1)) \<or> (code = 3 \<and> s = (-1, 1, 1))"
  by (auto simp: wing_inertia_sym_def split: if_splits)

lemma mirrored_flip:
  "mirrored (1, 1, -1) wx = map (\<lambda>(x, y, z). (x, y, - z)) wx"
  "mirrored (1, -1, 1) wx = map (\<lambda>(x, y, z). (x, - y, z)) wx"
  "mirrored (-1, 1, 1) wx = map (\<lambda>(x, y, z). (- x, y, z)) wx"
  by (simp_all add: mirrored_def)

lemma diag_steps_xz:
  "Ixx (accumulate M (gx, 0, gz) (mirrored (1, -1, 1) ps) t') - Ixx t'
     = Ixx (accumulate M (gx, 0, gz) ps t) - Ixx t"
  "Iyy (accumulate M (gx, 0, gz) (mirrored (1, -1, 1) ps) t') - Iyy t'
     = Iyy (accumulate M (gx, 0, gz) ps t) - Iyy t"
  "Izz (accumulate M (gx, 0, gz) (mirrored (1, -1, 1) ps) t') - Izz t'
     = Izz (accumulate M (gx, 0, gz) ps t) - Izz t"
  "Ixy (accumulate M (gx, 0, gz) (mirrored (1, -1, 1) ps) t') - Ixy t'
     = - (Ixy (accumulate M (gx, 0, gz) ps t) - Ixy t)"
  "Iyz (accumulate M (gx, 0, gz) (mirrored (1, -1, 1) ps) t') - Iyz t'
     = - (Iyz (accumulate M (gx, 0, gz) ps t) - Iyz t)"
  "Ixz (accumulate M (gx, 0, gz) (mirrored (1, -1, 1) ps) t') - Ixz t'
     = Ixz (accumulate M (gx, 0, gz) ps t) - Ixz t"
  by (simp_all add: accumulate_fields mirrored_def o_def split_def
        sum_list_map_uminus [symmetric])

lemma diag_steps_xy:
  "Ixy (accumulate M (gx, gy, 0) (mirrored (1, 1, -1) ps) t') - Ixy t'
     = Ixy (accumulate M (gx, gy, 0) ps t) - Ixy t"
  "Iyz (accumulate M (gx, gy, 0) (mirrored (1, 1, -1) ps) t') - Iyz t'
     = - (Iyz (accumulate M (gx, gy, 0) ps t) - Iyz t)"
  "Ixz (accumulate M (gx, gy, 0) (mirrored (1, 1, -1) ps) t') - Ixz t'
     = - (Ixz (accumulate M (gx, gy, 0) ps t) - Ixz t)"
  by (simp_all add: accumulate_fields mirrored_def o_def split_def
        sum_list_map_uminus [symmetric])

lemma diag_steps_yz:
  "Ixy (accumulate M (0, gy, gz) (mirrored (-1, 1, 1) ps) t') - Ixy t'
     = - (Ixy (accumulate M (0, gy, gz) ps t) - Ixy t)"
  "Iyz (accumulate M (0, gy, gz) (mirrored (-1, 1, 1) ps) t') - Iyz t'
     = Iyz (accumulate M (0, gy, gz) ps t) - Iyz t"
  "Ixz (accumulate M (0, gy, gz) (mirrored (-1, 1, 1) ps) t') - Ixz t'
     = - (Ixz (accumulate M (0, gy, gz) ps t) - Ixz t)"
  by (simp_all add: accumulate_fields mirrored_def o_def split_def
        sum_list_map_uminus [symmetric])

lemma mirrored_by_code:
  assumes "wing_inertia_sym code = Inr s"
  shows "mirrored s wx
    = map (\<lambda>(x, y, z). (if code = 3 then - x else x, if code = 2 then - y else y,
                          if code = 1 then - z else z)) wx"
  using wing_inertia_sym_cases [OF assms] by (auto simp: mirrored_def)

lemma wing_segments_nodes:
  assumes "py_nth (wing_sym awg) (int w - 1) = Inr code" and "code \<noteq> 0"
  shows "wing_segments subd_c SPACING fuse cog mass_seg_i awg tigl zeta w a ids st = Inr st' \<Longrightarrow>
    \<exists>clouds. emap (wing_segment_cloud subd_c SPACING fuse mass_seg_i awg tigl zeta w a)
                (takeWhile (\<lambda>i. i \<noteq> 0) ids) = Inr clouds
      \<and> nodes st' = nodes st @ concat (map (\<lambda>(wx, mass). wx @
           map (\<lambda>(x, y, z). (if code = 3 then - x else x, if code = 2 then - y else y,
                             if code = 1 then - z else z)) wx) clouds)"
proof (induction ids arbitrary: st)
  case Nil
  then show ?case by simp
next
  case (Cons i ids)
  show ?case
  proof (cases "i = 0")
    case True
    with Cons.prems show ?thesis by simp
  next
    case False
    with Cons.prems obtain st1 where
      s1: "wing_segment subd_c SPACING fuse cog mass_seg_i awg tigl zeta w a i st = Inr st1"
      and rest: "wing_segments subd_c SPACING fuse cog mass_seg_i awg tigl zeta w a ids st1 = Inr st'"
      by (auto simp: ebind_eq_Inr)
    from wing_segment_result [OF s1 assms(1)] assms(2) obtain wx mass s where
      c: "wing_segment_cloud subd_c SPACING fuse mass_seg_i awg tigl zeta w a i = Inr (wx, mass)"
      and s: "wing_inertia_sym code = Inr s"
      and st1: "st1 = add_mirrored_cloud mass cog (mirrored s wx) (add_cloud mass cog wx st)"
      by blast
    from Cons.IH [OF rest] obtain clouds where
      e: "emap (wing_segment_cloud subd_c SPACING fuse mass_seg_i awg tigl zeta w a)
                (takeWhile (\<lambda>i. i \<noteq> 0) ids) = Inr clouds"
      and n: "nodes st' = nodes st1 @ concat (map (\<lambda>(wx, mass). wx @
           map (\<lambda>(x, y, z). (if code = 3 then - x else x, if code = 2 then - y else y,
                             if code = 1 then - z else z)) wx) clouds)"
      by blast
    have "emap (wing_segment_cloud subd_c SPACING fuse mass_seg_i awg tigl zeta w a)
                (takeWhile (\<lambda>i. i \<noteq> 0) (i # ids)) = Inr ((wx, mass) # clouds)"
      using False c e by simp
    moreover have "nodes st' = nodes st @ concat (map (\<lambda>(wx, mass). wx @
           map (\<lambda>(x, y, z). (if code = 3 then - x else x, if code = 2 then - y else y,
                             if code = 1 then - z else z)) wx) ((wx, mass) # clouds))"
      using n by (simp add: st1 mirrored_by_code [OF s])
    ultimately show ?thesis by blast
  qed
qed

lemmas run_defs =
  wing_inertia_def wing_zeta_def wing_DEN_def no_nodes_def zero_tensor_def
  wing_segment_def wing_segment_cloud_def wing_station_def wing_inertia_sym_def
  add_cloud_def add_mirrored_cloud_def mirrored_def accumulate_def
  np2_def py_nth_def py_index_def subdivisions_def py_int_def Let_def upt_rec

lemma skew_wing_segment:
  "wing_segment 0 1 0 (0, 0, 0) [[8, 8]] (one_wing 2) skew_tigl 1 1 0 1 no_nodes
     = Inr \<lparr>nodes = replicate 8 (1, 2, 3) @ replicate 8 (1, - 2, 3),
            inertia = \<lparr>Ixx = 208, Iyy = 160, Izz = 80, Ixy = 0, Iyz = 0, Ixz = 48\<rparr>,
            node_mass = replicate 8 1, mirror_mass = replicate 8 1\<rparr>"
  by (simp add: run_defs one_wing_def skew_tigl_def eval_nat_numeral)

text \<open>
  The share of mass of each point, segment by segment, component by component and over
  the whole call.
\<close>

lemma fuse_segment_result:
  assumes "fuse_segment SPACING cog mass_seg_i afg tigl f i (st, p0) = Inr (st', p0')"
    and "0 < SPACING"
    and "list_all (list_all (\<lambda>l. 0 \<le> l)) (fuse_seg_length afg)"
    and "list_all (list_all (\<lambda>l. 0 \<le> l)) (fuse_sec_per afg)"
  shows "\<exists>fx. fx \<noteq> []
      \<and> st' = add_cloud (supplied_mass mass_seg_i (int i - 1) (int f - 1)) cog fx st"
proof -
  from assms(1) obtain subd_l C0 r D c fx mass where
    sub: "fuse_subdivisions SPACING afg f i = Inr (subd_l, C0, r)"
    and stations: "fuse_stations tigl f i (1 / real_of_int subd_l) (1 / real_of_int C0)
              C0 r D c [0 ..< nat (subd_l + 1)] ([], p0) = Inr (fx, p0')"
    and m: "np2 mass_seg_i (int i - 1) (int f - 1) = Inr mass"
    and st': "st' = add_cloud mass cog fx st"
    by (auto simp: fuse_segment_def ebind_eq_Inr)
  from sub obtain l p where
    l: "np2 (fuse_seg_length afg) (int i - 1) (int f - 1) = Inr l"
    and sl: "subdivisions l SPACING = Inr subd_l"
    and p: "np2 (fuse_sec_per afg) (int i - 1) (int f - 1) = Inr p"
    and sp: "subdivisions p SPACING = Inr C0"
    unfolding fuse_subdivisions_def ebind_eq_Inr by auto
  have "1 \<le> subd_l"
    using subdivisions_pos [OF sl assms(2)] np2_list_all [OF l assms(3)] by simp
  moreover have "1 \<le> C0"
    using subdivisions_pos [OF sp assms(2)] np2_list_all [OF p assms(4)] by simp
  ultimately have "fx \<noteq> []"
    using fuse_stations_length [OF stations] by auto
  then show ?thesis
    using m by (auto simp: st' supplied_mass_def)
qed

lemma fuse_segments_shares:
  assumes "0 < SPACING"
    and "list_all (list_all (\<lambda>l. 0 \<le> l)) (fuse_seg_length afg)"
    and "list_all (list_all (\<lambda>l. 0 \<le> l)) (fuse_sec_per afg)"
  shows "fuse_segments SPACING cog mass_seg_i afg tigl f ids (st, p0) = Inr (st', p0') \<Longrightarrow>
     \<exists>new ms. nodes st' = nodes st @ new \<and> node_mass st' = node_mass st @ ms
        \<and> mirror_mass st' = mirror_mass st \<and> length ms = length new
        \<and> sum_list ms = (\<Sum>i \<leftarrow> ids. supplied_mass mass_seg_i (int i - 1) (int f - 1))"
proof (induction ids arbitrary: st p0)
  case Nil
  then show ?case by simp
next
  case (Cons i ids)
  from Cons.prems obtain st1 p1 where
    s1: "fuse_segment SPACING cog mass_seg_i afg tigl f i (st, p0) = Inr (st1, p1)"
    and rest: "fuse_segments SPACING cog mass_seg_i afg tigl f ids (st1, p1) = Inr (st', p0')"
    by (auto simp: ebind_eq_Inr)
  from fuse_segment_result [OF s1 assms] obtain fx where
    ne: "fx \<noteq> []"
    and st1: "st1 = add_cloud (supplied_mass mass_seg_i (int i - 1) (int f - 1)) cog fx st"
    by blast
  from Cons.IH [OF rest] obtain new ms where
    r: "nodes st' = nodes st1 @ new" "node_mass st' = node_mass st1 @ ms"
      "mirror_mass st' = mirror_mass st1" "length ms = length new"
      "sum_list ms = (\<Sum>i \<leftarrow> ids. supplied_mass mass_seg_i (int i - 1) (int f - 1))"
    by blast
  let ?m = "supplied_mass mass_seg_i (int i - 1) (int f - 1)"
  show ?case
    apply (rule exI [of _ "fx @ new"])
    apply (rule exI [of _ "replicate (length fx) (?m / real (length fx)) @ ms"])
    using r ne by (simp add: st1 sum_list_replicate)
qed

lemma wing_segment_shares:
  assumes "wing_segment subd_c SPACING fuse cog mass_seg_i awg tigl zeta w a i st = Inr st'"
    and "0 < SPACING" and "list_all (list_all (\<lambda>l. 0 \<le> l)) (wing_seg_length awg)"
    and "py_nth (wing_sym awg) (int w - 1) = Inr code"
  shows "\<exists>wx. wx \<noteq> []
      \<and> (code = 0 \<longrightarrow>
           st' = add_cloud (supplied_mass mass_seg_i (int i - 1) (int (fuse + w + a) - 1)) cog wx st)
      \<and> (code \<noteq> 0 \<longrightarrow> (\<exists>s. wing_inertia_sym code = Inr s
            \<and> st' = add_mirrored_cloud (supplied_mass mass_seg_i (int i - 1) (int (fuse + w + a) - 1))
                      cog (mirrored s wx)
                      (add_cloud (supplied_mass mass_seg_i (int i - 1) (int (fuse + w + a) - 1))
                         cog wx st)))"
proof -
  from wing_segment_result [OF assms(1,4)] obtain wx mass where
    c: "wing_segment_cloud subd_c SPACING fuse mass_seg_i awg tigl zeta w a i = Inr (wx, mass)"
    and r: "code = 0 \<longrightarrow> st' = add_cloud mass cog wx st"
      "code \<noteq> 0 \<longrightarrow> (\<exists>s. wing_inertia_sym code = Inr s
            \<and> st' = add_mirrored_cloud mass cog (mirrored s wx) (add_cloud mass cog wx st))"
    by blast
  have ne: "wx \<noteq> []" and m: "supplied_mass mass_seg_i (int i - 1) (int (fuse + w + a) - 1) = mass"
    using wing_segment_cloud_nonempty [OF c assms(2,3)] by (simp_all add: supplied_mass_def)
  from ne r show ?thesis unfolding m by blast
qed

lemma wing_segments_shares:
  assumes "0 < SPACING" and "list_all (list_all (\<lambda>l. 0 \<le> l)) (wing_seg_length awg)"
    and "py_nth (wing_sym awg) (int w - 1) = Inr code"
  shows "wing_segments subd_c SPACING fuse cog mass_seg_i awg tigl zeta w a ids st = Inr st' \<Longrightarrow>
     \<exists>new ms mms. nodes st' = nodes st @ new \<and> node_mass st' = node_mass st @ ms
        \<and> mirror_mass st' = mirror_mass st @ mms
        \<and> length new = length ms + length mms
        \<and> length mms = (if code = 0 then 0 else length ms)
        \<and> sum_list ms = (\<Sum>i \<leftarrow> takeWhile (\<lambda>i. i \<noteq> 0) ids.
                           supplied_mass mass_seg_i (int i - 1) (int (fuse + w + a) - 1))
        \<and> sum_list mms = (if code = 0 then 0 else sum_list ms)"
proof (induction ids arbitrary: st)
  case Nil
  then show ?case by simp
next
  case (Cons i ids)
  show ?case
  proof (cases "i = 0")
    case True
    with Cons.prems show ?thesis by simp
  next
    case False
    with Cons.prems obtain st1 where
      s1: "wing_segment subd_c SPACING fuse cog mass_seg_i awg tigl zeta w a i st = Inr st1"
      and rest: "wing_segments subd_c SPACING fuse cog mass_seg_i awg tigl zeta w a ids st1 = Inr st'"
      by (auto simp: ebind_eq_Inr)
    let ?m = "supplied_mass mass_seg_i (int i - 1) (int (fuse + w + a) - 1)"
    from wing_segment_shares [OF s1 assms] obtain wx where
      ne: "wx \<noteq> []"
      and r0: "code = 0 \<longrightarrow> st1 = add_cloud ?m cog wx st"
      and r1: "code \<noteq> 0 \<longrightarrow> (\<exists>s. wing_inertia_sym code = Inr s
            \<and> st1 = add_mirrored_cloud ?m cog (mirrored s wx) (add_cloud ?m cog wx st))"
      by blast
    from Cons.IH [OF rest] obtain new ms mms where
      r: "nodes st' = nodes st1 @ new" "node_mass st' = node_mass st1 @ ms"
        "mirror_mass st' = mirror_mass st1 @ mms"
        "length new = length ms + length mms"
        "length mms = (if code = 0 then 0 else length ms)"
        "sum_list ms = (\<Sum>i \<leftarrow> takeWhile (\<lambda>i. i \<noteq> 0) ids.
                           supplied_mass mass_seg_i (int i - 1) (int (fuse + w + a) - 1))"
        "sum_list mms = (if code = 0 then 0 else sum_list ms)"
      by blast
    let ?share = "replicate (length wx) (?m / real (length wx))"
    show ?thesis
    proof (cases "code = 0")
      case True
      with r0 have st1: "st1 = add_cloud ?m cog wx st" by simp
      show ?thesis
        apply (rule exI [of _ "wx @ new"])
        apply (rule exI [of _ "?share @ ms"])
        apply (rule exI [of _ "mms"])
        using r ne True False by (simp add: st1 sum_list_replicate)
    next
      case c: False
      with r1 obtain s where
        st1: "st1 = add_mirrored_cloud ?m cog (mirrored s wx) (add_cloud ?m cog wx st)" by blast
      show ?thesis
        apply (rule exI [of _ "wx @ mirrored s wx @ new"])
        apply (rule exI [of _ "?share @ ms"])
        apply (rule exI [of _ "?share @ mms"])
        using r ne c False by (simp add: st1 sum_list_replicate)
    qed
  qed
qed

lemma py_nth_from_one: "py_nth xs (int w - 1) = Inr v \<Longrightarrow> 1 \<le> w \<Longrightarrow> v = xs ! (w - 1)"
  by (auto simp: py_nth_def py_index_def nat_diff_distrib' split: option.splits if_splits)

lemma fuse_loop_shares:
  assumes "0 < SPACING"
    and "list_all (list_all (\<lambda>l. 0 \<le> l)) (fuse_seg_length afg)"
    and "list_all (list_all (\<lambda>l. 0 \<le> l)) (fuse_sec_per afg)"
  shows "fuse_loop SPACING cog mass_seg_i afg tigl fs (st, p0) = Inr (st', p0')
     \<Longrightarrow> \<forall>f \<in> set fs. 1 \<le> f
     \<Longrightarrow> \<exists>new ms. nodes st' = nodes st @ new \<and> node_mass st' = node_mass st @ ms
        \<and> mirror_mass st' = mirror_mass st \<and> length ms = length new
        \<and> sum_list ms = (\<Sum>f \<leftarrow> fs. \<Sum>i \<leftarrow> map (\<lambda>(s0, s1, j). j) (f_seg_sec afg ! (f - 1)).
                             supplied_mass mass_seg_i (int i - 1) (int f - 1))"
proof (induction fs arbitrary: st p0)
  case Nil
  then show ?case by simp
next
  case (Cons f fs)
  from Cons.prems(1) obtain rows st1 p1 where
    rows: "py_nth (f_seg_sec afg) (int f - 1) = Inr rows"
    and s1: "fuse_segments SPACING cog mass_seg_i afg tigl f (map (\<lambda>(s0, s1, j). j) rows) (st, p0)
               = Inr (st1, p1)"
    and rest: "fuse_loop SPACING cog mass_seg_i afg tigl fs (st1, p1) = Inr (st', p0')"
    by (auto simp: ebind_eq_Inr)
  have rows_eq: "rows = f_seg_sec afg ! (f - 1)"
    using py_nth_from_one [OF rows] Cons.prems(2) by simp
  from fuse_segments_shares [OF assms s1] obtain new1 ms1 where
    a: "nodes st1 = nodes st @ new1" "node_mass st1 = node_mass st @ ms1"
      "mirror_mass st1 = mirror_mass st" "length ms1 = length new1"
      "sum_list ms1 = (\<Sum>i \<leftarrow> map (\<lambda>(s0, s1, j). j) rows.
                         supplied_mass mass_seg_i (int i - 1) (int f - 1))"
    by blast
  from Cons.IH [OF rest] Cons.prems(2) obtain new2 ms2 where
    b: "nodes st' = nodes st1 @ new2" "node_mass st' = node_mass st1 @ ms2"
      "mirror_mass st' = mirror_mass st1" "length ms2 = length new2"
      "sum_list ms2 = (\<Sum>f \<leftarrow> fs. \<Sum>i \<leftarrow> map (\<lambda>(s0, s1, j). j) (f_seg_sec afg ! (f - 1)).
                             supplied_mass mass_seg_i (int i - 1) (int f - 1))"
    by auto
  show ?case
    apply (rule exI [of _ "new1 @ new2"])
    apply (rule exI [of _ "ms1 @ ms2"])
    using a b by (simp add: rows_eq)
qed

lemma fuselage_inertia_shares:
  assumes "0 < SPACING"
    and "list_all (list_all (\<lambda>l. 0 \<le> l)) (fuse_seg_length afg)"
    and "list_all (list_all (\<lambda>l. 0 \<le> l)) (fuse_sec_per afg)"
    and "fuselage_inertia SPACING cog mass_seg_i afg tigl = Inr st'"
  shows "length (node_mass st') = length (nodes st') \<and> mirror_mass st' = []
     \<and> sum_list (node_mass st')
         = (\<Sum>f \<leftarrow> [1 ..< f_nb afg + 1]. \<Sum>i \<leftarrow> map (\<lambda>(s0, s1, j). j) (f_seg_sec afg ! (f - 1)).
              supplied_mass mass_seg_i (int i - 1) (int f - 1))"
proof -
  from assms(4) obtain p0' where
    run: "fuse_loop SPACING cog mass_seg_i afg tigl [1 ..< f_nb afg + 1] (no_nodes, None)
            = Inr (st', p0')"
    by (auto simp: fuselage_inertia_def ebind_eq_Inr)
  have ge: "\<forall>f \<in> set [1 ..< f_nb afg + 1]. 1 \<le> f" by auto
  from fuse_loop_shares [OF assms(1-3) run ge] show ?thesis
    by (auto simp: no_nodes_def simp del: upt_Suc)
qed

lemma wing_loop_shares:
  assumes "0 < SPACING" and "list_all (list_all (\<lambda>l. 0 \<le> l)) (wing_seg_length awg)"
  shows "wing_loop subd_c SPACING fuse cog mass_seg_i awg tigl [lo ..< hi] a st = Inr st'
     \<Longrightarrow> 1 \<le> lo
     \<Longrightarrow> \<exists>new ms mms. nodes st' = nodes st @ new \<and> node_mass st' = node_mass st @ ms
        \<and> mirror_mass st' = mirror_mass st @ mms
        \<and> length new = length ms + length mms
        \<and> sum_list ms
            = (\<Sum>w \<leftarrow> [lo ..< hi].
                 \<Sum>i \<leftarrow> takeWhile (\<lambda>i. i \<noteq> 0) (map (\<lambda>(s0, s1, j). j) (w_seg_sec awg ! (w - 1))).
                   supplied_mass mass_seg_i (int i - 1)
                     (int (fuse + w + (a + length (filter (\<lambda>v. wing_sym awg ! (v - 1) \<noteq> 0) [lo ..< w]))) - 1))
        \<and> sum_list mms
            = (\<Sum>w \<leftarrow> [lo ..< hi]. if wing_sym awg ! (w - 1) = 0 then 0 else
                 \<Sum>i \<leftarrow> takeWhile (\<lambda>i. i \<noteq> 0) (map (\<lambda>(s0, s1, j). j) (w_seg_sec awg ! (w - 1))).
                   supplied_mass mass_seg_i (int i - 1)
                     (int (fuse + w + (a + length (filter (\<lambda>v. wing_sym awg ! (v - 1) \<noteq> 0) [lo ..< w]))) - 1))"
proof (induction "hi - lo" arbitrary: lo a st)
  case 0
  then show ?case by simp
next
  case (Suc d)
  let ?S = "\<lambda>w. wing_sym awg ! (w - 1) \<noteq> 0"
  let ?T = "\<lambda>w b. \<Sum>i \<leftarrow> takeWhile (\<lambda>i. i \<noteq> 0) (map (\<lambda>(s0, s1, j). j) (w_seg_sec awg ! (w - 1))).
                   supplied_mass mass_seg_i (int i - 1) (int (fuse + w + b) - 1)"
  have lt: "lo < hi" using Suc.hyps(2) by simp
  have up: "[lo ..< hi] = lo # [Suc lo ..< hi]" using lt by (simp add: upt_conv_Cons)
  from Suc.prems(1) obtain zeta rows st1 code where
    rows: "py_nth (w_seg_sec awg) (int lo - 1) = Inr rows"
    and s1: "wing_segments subd_c SPACING fuse cog mass_seg_i awg tigl zeta lo a
               (map (\<lambda>(s0, s1, j). j) rows) st = Inr st1"
    and code: "py_nth (wing_sym awg) (int lo - 1) = Inr code"
    and rest: "wing_loop subd_c SPACING fuse cog mass_seg_i awg tigl [Suc lo ..< hi]
                 (if code \<noteq> 0 then a + 1 else a) st1 = Inr st'"
    unfolding up by (auto simp: ebind_eq_Inr)
  have rows_eq: "rows = w_seg_sec awg ! (lo - 1)" using py_nth_from_one [OF rows Suc.prems(2)] .
  have code_eq: "code = wing_sym awg ! (lo - 1)" using py_nth_from_one [OF code Suc.prems(2)] .
  define a' where "a' = (if code \<noteq> 0 then a + 1 else a)"
  from wing_segments_shares [OF assms code s1] obtain new1 ms1 mms1 where
    p: "nodes st1 = nodes st @ new1" "node_mass st1 = node_mass st @ ms1"
      "mirror_mass st1 = mirror_mass st @ mms1"
      "length new1 = length ms1 + length mms1"
      "sum_list ms1 = ?T lo a"
      "sum_list mms1 = (if code = 0 then 0 else sum_list ms1)"
    unfolding rows_eq by blast
  have d: "d = hi - Suc lo" using Suc.hyps(2) by simp
  have one: "1 \<le> Suc lo" by simp
  from Suc.hyps(1) [OF d rest [folded a'_def] one] obtain new2 ms2 mms2 where
    q: "nodes st' = nodes st1 @ new2" "node_mass st' = node_mass st1 @ ms2"
      "mirror_mass st' = mirror_mass st1 @ mms2"
      "length new2 = length ms2 + length mms2"
      "sum_list ms2 = (\<Sum>w \<leftarrow> [Suc lo ..< hi]. ?T w (a' + length (filter ?S [Suc lo ..< w])))"
      "sum_list mms2 = (\<Sum>w \<leftarrow> [Suc lo ..< hi]. if wing_sym awg ! (w - 1) = 0 then 0
                           else ?T w (a' + length (filter ?S [Suc lo ..< w])))"
    by blast
  have cnt: "a' + length (filter ?S [Suc lo ..< w]) = a + length (filter ?S [lo ..< w])"
    if "w \<in> set [Suc lo ..< hi]" for w
    using that code_eq unfolding a'_def by (simp add: upt_conv_Cons)
  have m1: "map (\<lambda>w. ?T w (a' + length (filter ?S [Suc lo ..< w]))) [Suc lo ..< hi]
      = map (\<lambda>w. ?T w (a + length (filter ?S [lo ..< w]))) [Suc lo ..< hi]"
    by (rule map_cong [OF refl]) (simp only: cnt)
  have m2: "map (\<lambda>w. if wing_sym awg ! (w - 1) = 0 then 0
                       else ?T w (a' + length (filter ?S [Suc lo ..< w]))) [Suc lo ..< hi]
      = map (\<lambda>w. if wing_sym awg ! (w - 1) = 0 then 0
                   else ?T w (a + length (filter ?S [lo ..< w]))) [Suc lo ..< hi]"
    by (rule map_cong [OF refl]) (simp only: cnt)
  show ?case
    apply (rule exI [of _ "new1 @ new2"])
    apply (rule exI [of _ "ms1 @ ms2"])
    apply (rule exI [of _ "mms1 @ mms2"])
    unfolding up using p q code_eq unfolding m1 m2 by simp
qed

lemma wing_inertia_shares:
  assumes "0 < SPACING" and "list_all (list_all (\<lambda>l. 0 \<le> l)) (wing_seg_length awg)"
    and "wing_inertia subd_c SPACING fuse cog mass_seg_i awg tigl = Inr st'"
  shows "length (nodes st') = length (node_mass st') + length (mirror_mass st')
     \<and> sum_list (node_mass st')
         = (\<Sum>w \<leftarrow> [1 ..< w_nb awg + 1].
              \<Sum>i \<leftarrow> takeWhile (\<lambda>i. i \<noteq> 0) (map (\<lambda>(s0, s1, j). j) (w_seg_sec awg ! (w - 1))).
                supplied_mass mass_seg_i (int i - 1)
                  (int (fuse + w + length (filter (\<lambda>v. wing_sym awg ! (v - 1) \<noteq> 0) [1 ..< w])) - 1))
     \<and> sum_list (mirror_mass st')
         = (\<Sum>w \<leftarrow> [1 ..< w_nb awg + 1]. if wing_sym awg ! (w - 1) = 0 then 0 else
              \<Sum>i \<leftarrow> takeWhile (\<lambda>i. i \<noteq> 0) (map (\<lambda>(s0, s1, j). j) (w_seg_sec awg ! (w - 1))).
                supplied_mass mass_seg_i (int i - 1)
                  (int (fuse + w + length (filter (\<lambda>v. wing_sym awg ! (v - 1) \<noteq> 0) [1 ..< w])) - 1))"
proof -
  have one: "(1::nat) \<le> 1" by simp
  have e: "nodes no_nodes = []" "node_mass no_nodes = []" "mirror_mass no_nodes = []"
    by (simp_all add: no_nodes_def)
  from wing_loop_shares [OF assms(1,2) assms(3) [unfolded wing_inertia_def] one,
      unfolded add_0_left e append_Nil]
  obtain new ms mms where "nodes st' = new" "node_mass st' = ms" "mirror_mass st' = mms"
    "length new = length ms + length mms"
    "sum_list ms
         = (\<Sum>w \<leftarrow> [1 ..< w_nb awg + 1].
              \<Sum>i \<leftarrow> takeWhile (\<lambda>i. i \<noteq> 0) (map (\<lambda>(s0, s1, j). j) (w_seg_sec awg ! (w - 1))).
                supplied_mass mass_seg_i (int i - 1)
                  (int (fuse + w + length (filter (\<lambda>v. wing_sym awg ! (v - 1) \<noteq> 0) [1 ..< w])) - 1))"
    "sum_list mms
         = (\<Sum>w \<leftarrow> [1 ..< w_nb awg + 1]. if wing_sym awg ! (w - 1) = 0 then 0 else
              \<Sum>i \<leftarrow> takeWhile (\<lambda>i. i \<noteq> 0) (map (\<lambda>(s0, s1, j). j) (w_seg_sec awg ! (w - 1))).
                supplied_mass mass_seg_i (int i - 1)
                  (int (fuse + w + length (filter (\<lambda>v. wing_sym awg ! (v - 1) \<noteq> 0) [1 ..< w])) - 1))"
    by blast
  then show ?thesis by blast
qed

lemma single_fuselage_inertia:
  "f_nb afg = 1 \<Longrightarrow> f_seg_sec afg = [[(s0, s1, 1)]]
     \<Longrightarrow> fuse_segments SPACING cog mass_seg_i afg tigl 1 [1] (no_nodes, None) = Inr (st', p0')
     \<Longrightarrow> fuselage_inertia SPACING cog mass_seg_i afg tigl = Inr st'"
  by (simp add: fuselage_inertia_def py_nth_def py_index_def)

lemma single_wing_inertia:
  "w_nb awg = 1 \<Longrightarrow> w_seg_sec awg = [[(s0, s1, 1)]] \<Longrightarrow> wing_sym awg = [code]
     \<Longrightarrow> wing_segments 0 SPACING fuse cog mass_seg_i awg tigl 1 1 0 [1] no_nodes = Inr st'
     \<Longrightarrow> wing_inertia 0 SPACING fuse cog mass_seg_i awg tigl = Inr st'"
  by (simp add: wing_inertia_def wing_zeta_def wing_DEN_def py_int_def py_nth_def py_index_def
      upt_rec)

text \<open>
  The loop of \<open>getwingsegmentlength\<close>: a wing writes its own column and, with a
  symmetry plane, the next one; the later wings leave both as they are.
\<close>

lemma np2_set_row_lengths: "np2_set arr r c v = Inr arr' \<Longrightarrow> map length arr' = map length arr"
  by (auto simp: np2_set_def py_index_def map_update list_update_same_conv
      split: option.splits if_splits)

lemma np2_set_other_column:
  "np2_set arr r c v = Inr arr' \<Longrightarrow> 0 \<le> c \<Longrightarrow> 0 \<le> c' \<Longrightarrow> c' \<noteq> c \<Longrightarrow> 0 \<le> r'
     \<Longrightarrow> np2 arr' r' c' = np2 arr r' c'"
  by (auto simp: np2_set_def np2_def py_nth_def py_index_def nth_list_update
      split: option.splits if_splits)

lemma wing_seg_lengths_row_lengths:
  "wing_seg_lengths wcsp i a js lens = Inr lens' \<Longrightarrow> map length lens' = map length lens"
proof (induction js arbitrary: lens)
  case Nil
  then show ?case by simp
next
  case (Cons j js)
  from Cons.prems obtain p1 p2 lens1 where
    s: "np2_set lens (int j - 1) (int (i + a) - 1) (seg_length p1 p2) = Inr lens1"
    and r: "wing_seg_lengths wcsp i a js lens1 = Inr lens'"
    by (auto simp: ebind_eq_Inr)
  from Cons.IH [OF r] np2_set_row_lengths [OF s] show ?case by simp
qed

lemma wing_seg_lengths_other_column:
  "wing_seg_lengths wcsp i a js lens = Inr lens' \<Longrightarrow> 1 \<le> i + a \<Longrightarrow> 0 \<le> c
     \<Longrightarrow> c \<noteq> int (i + a) - 1 \<Longrightarrow> 0 \<le> r \<Longrightarrow> np2 lens' r c = np2 lens r c"
proof (induction js arbitrary: lens)
  case Nil
  then show ?case by simp
next
  case (Cons j js)
  from Cons.prems(1) obtain p1 p2 lens1 where
    s: "np2_set lens (int j - 1) (int (i + a) - 1) (seg_length p1 p2) = Inr lens1"
    and r: "wing_seg_lengths wcsp i a js lens1 = Inr lens'"
    by (auto simp: ebind_eq_Inr)
  have "np2 lens' r c = np2 lens1 r c" using Cons.IH [OF r Cons.prems(2-5)] .
  also have "\<dots> = np2 lens r c"
    using np2_set_other_column [OF s _ Cons.prems(3,4,5)] Cons.prems(2) by simp
  finally show ?case .
qed

lemma copy_column_other:
  "0 \<le> c' \<Longrightarrow> c' \<noteq> int c
     \<Longrightarrow> np2 (map (\<lambda>row. row[c := row ! (c - 1)]) lens) r c' = np2 lens r c'"
  by (auto simp: np2_def py_nth_def py_index_def ebind_def nth_list_update
      split: option.splits if_splits sum.splits)

lemma copy_column_value:
  "np2 lens r (int c - 1) = Inr v \<Longrightarrow> 1 \<le> c \<Longrightarrow> \<forall>row \<in> set lens. length row = k \<Longrightarrow> c < k
     \<Longrightarrow> np2 (map (\<lambda>row. row[c := row ! (c - 1)]) lens) r (int c) = Inr v"
  by (auto simp: np2_def py_nth_def py_index_def ebind_def nat_diff_distrib'
      split: option.splits if_splits sum.splits)

lemma rows_of_length: "(\<forall>row \<in> set lens. length row = k) \<longleftrightarrow> (\<forall>n \<in> set (map length lens). n = k)"
  by auto

lemma wing_lengths_loop_other_column:
  "wing_lengths_loop awg wcsp ws a lens = Inr lens' \<Longrightarrow> \<forall>w \<in> set ws. c + 1 < int (w + a)
     \<Longrightarrow> 0 \<le> c \<Longrightarrow> 0 \<le> r \<Longrightarrow> np2 lens' r c = np2 lens r c"
proof (induction ws arbitrary: a lens)
  case Nil
  then show ?case by simp
next
  case (Cons w ws)
  from Cons.prems(1) obtain n lens1 code where
    n: "py_nth (wing_seg_nb awg) (int w - 1) = Inr n"
    and l1: "wing_seg_lengths wcsp w a [1 ..< n + 1] lens = Inr lens1"
    and code: "py_nth (wing_sym awg) (int w - 1) = Inr code"
    and rest: "(if code \<noteq> 0
         then (if w + a < wing_nb awg
               then wing_lengths_loop awg wcsp ws (a + 1)
                      (map (\<lambda>row. row[w + a := row ! (w + a - 1)]) lens1)
               else Inl IndexError)
         else wing_lengths_loop awg wcsp ws a lens1) = Inr lens'"
    by (auto simp: ebind_eq_Inr)
  have c: "c + 1 < int (w + a)" and cs: "\<forall>w \<in> set ws. c + 1 < int (w + a)"
    using Cons.prems(2) by auto
  have k1: "np2 lens1 r c = np2 lens r c"
    using wing_seg_lengths_other_column [OF l1 _ Cons.prems(3) _ Cons.prems(4)] c Cons.prems(3)
    by auto
  show ?case
  proof (cases "code \<noteq> 0")
    case True
    with rest have run: "wing_lengths_loop awg wcsp ws (a + 1)
                      (map (\<lambda>row. row[w + a := row ! (w + a - 1)]) lens1) = Inr lens'"
      by (auto split: if_splits)
    have "\<forall>w \<in> set ws. c + 1 < int (w + (a + 1))" using cs by auto
    from Cons.IH [OF run this Cons.prems(3,4)]
    have "np2 lens' r c = np2 (map (\<lambda>row. row[w + a := row ! (w + a - 1)]) lens1) r c" .
    also have "\<dots> = np2 lens1 r c"
      using copy_column_other [of c "w + a" lens1 r] c Cons.prems(3) by auto
    finally show ?thesis using k1 by simp
  next
    case False
    with rest have run: "wing_lengths_loop awg wcsp ws a lens1 = Inr lens'" by simp
    from Cons.IH [OF run cs Cons.prems(3,4)] k1 show ?thesis by simp
  qed
qed

lemma wing_lengths_loop_entry:
  "wing_lengths_loop awg wcsp [lo ..< hi] a lens = Inr lens'
     \<Longrightarrow> \<forall>row \<in> set lens. length row = wing_nb awg
     \<Longrightarrow> 1 \<le> lo \<Longrightarrow> lo \<le> i \<Longrightarrow> i < hi \<Longrightarrow> 1 \<le> j \<Longrightarrow> j \<le> wing_seg_nb awg ! (i - 1)
     \<Longrightarrow> \<exists>q1 q2. np2 wcsp (int j - 1) (int i - 1) = Inr q1
            \<and> np2 wcsp (int j) (int i - 1) = Inr q2
            \<and> np2 lens' (int j - 1)
                 (int (i + (a + length (filter (\<lambda>w. wing_sym awg ! (w - 1) \<noteq> 0) [lo ..< i]))) - 1)
                = Inr (seg_length q1 q2)
            \<and> (wing_sym awg ! (i - 1) \<noteq> 0 \<longrightarrow>
                 np2 lens' (int j - 1)
                   (int (i + (a + length (filter (\<lambda>w. wing_sym awg ! (w - 1) \<noteq> 0) [lo ..< i]))))
                  = Inr (seg_length q1 q2))"
proof (induction "hi - lo" arbitrary: lo a lens)
  case 0
  then show ?case by simp
next
  case (Suc d)
  have up: "[lo ..< hi] = lo # [Suc lo ..< hi]" using Suc.prems(4,5) by (simp add: upt_conv_Cons)
  from Suc.prems(1) obtain n lens1 code where
    n: "py_nth (wing_seg_nb awg) (int lo - 1) = Inr n"
    and l1: "wing_seg_lengths wcsp lo a [1 ..< n + 1] lens = Inr lens1"
    and code: "py_nth (wing_sym awg) (int lo - 1) = Inr code"
    and rest: "(if code \<noteq> 0
         then (if lo + a < wing_nb awg
               then wing_lengths_loop awg wcsp [Suc lo ..< hi] (a + 1)
                      (map (\<lambda>row. row[lo + a := row ! (lo + a - 1)]) lens1)
               else Inl IndexError)
         else wing_lengths_loop awg wcsp [Suc lo ..< hi] a lens1) = Inr lens'"
    unfolding up by (auto simp: ebind_eq_Inr)
  have n_eq: "n = wing_seg_nb awg ! (lo - 1)" using py_nth_from_one [OF n Suc.prems(3)] .
  have code_eq: "code = wing_sym awg ! (lo - 1)" using py_nth_from_one [OF code Suc.prems(3)] .
  have rows1: "\<forall>row \<in> set lens1. length row = wing_nb awg"
    using Suc.prems(2) wing_seg_lengths_row_lengths [OF l1] unfolding rows_of_length by simp
  define a' where "a' = (if code \<noteq> 0 then a + 1 else a)"
  define lens2 where "lens2 = (if code \<noteq> 0
      then map (\<lambda>row. row[lo + a := row ! (lo + a - 1)]) lens1 else lens1)"
  have run: "wing_lengths_loop awg wcsp [Suc lo ..< hi] a' lens2 = Inr lens'"
    and bound: "code \<noteq> 0 \<longrightarrow> lo + a < wing_nb awg"
    using rest unfolding a'_def lens2_def by (auto split: if_splits)
  have rows2: "\<forall>row \<in> set lens2. length row = wing_nb awg"
    using rows1 unfolding lens2_def by auto
  show ?case
  proof (cases "i = lo")
    case True
    have d: "distinct [1 ..< n + 1]" and g: "\<forall>j \<in> set [1 ..< n + 1]. 1 \<le> j"
      and m: "j \<in> set [1 ..< n + 1]"
      using Suc.prems(6,7) True n_eq by auto
    from wing_seg_lengths_entry [OF l1 d g m] obtain q1 q2 where
      q1: "np2 wcsp (int j - 1) (int lo - 1) = Inr q1"
      and q2: "np2 wcsp (int j) (int lo - 1) = Inr q2"
      and e1: "np2 lens1 (int j - 1) (int (lo + a) - 1) = Inr (seg_length q1 q2)"
      by blast
    have e2: "np2 lens2 (int j - 1) (int (lo + a) - 1) = Inr (seg_length q1 q2)"
      using e1 copy_column_other [of "int (lo + a) - 1" "lo + a" lens1 "int j - 1"] Suc.prems(3)
      unfolding lens2_def by auto
    have e3: "np2 lens2 (int j - 1) (int (lo + a)) = Inr (seg_length q1 q2)" if "code \<noteq> 0"
      using copy_column_value [OF e1 _ rows1] bound that Suc.prems(3) unfolding lens2_def by auto
    have f1: "\<forall>w \<in> set [Suc lo ..< hi]. (int (lo + a) - 1) + 1 < int (w + a')"
      unfolding a'_def by auto
    have f2: "\<forall>w \<in> set [Suc lo ..< hi]. int (lo + a) + 1 < int (w + a')" if "code \<noteq> 0"
      using that unfolding a'_def by auto
    have k1: "np2 lens' (int j - 1) (int (lo + a) - 1) = Inr (seg_length q1 q2)"
      using wing_lengths_loop_other_column [OF run f1, of "int j - 1"] e2 Suc.prems(3,6) by auto
    have k2: "np2 lens' (int j - 1) (int (lo + a)) = Inr (seg_length q1 q2)" if "code \<noteq> 0"
      using wing_lengths_loop_other_column [OF run f2 [OF that], of "int j - 1"] e3 [OF that]
        Suc.prems(6) by auto
    show ?thesis
      apply (rule exI [of _ q1])
      apply (rule exI [of _ q2])
      using q1 q2 k1 k2 True code_eq by simp
  next
    case False
    then have lt: "Suc lo \<le> i" using Suc.prems(4) by simp
    have d: "d = hi - Suc lo" using Suc.hyps(2) by simp
    have one: "1 \<le> Suc lo" by simp
    have cnt: "a' + length (filter (\<lambda>w. wing_sym awg ! (w - 1) \<noteq> 0) [Suc lo ..< i])
        = a + length (filter (\<lambda>w. wing_sym awg ! (w - 1) \<noteq> 0) [lo ..< i])"
      using lt code_eq unfolding a'_def by (simp add: upt_conv_Cons)
    from Suc.hyps(1) [OF d run rows2 one lt Suc.prems(5,6,7)] show ?thesis
      unfolding cnt .
  qed
qed

subsection \<open>The claims\<close>

text \<open>
  C1 (the code departs from the claim). The segments of \<open>reversed_wing\<close> form the
  chain of sections 1, 2, 3, but are numbered in reverse order. The search for the
  root compares the outer end of segment 2 (section 2) with the inner end of segment 1
  (section 2 again), finds it no lower, and keeps segment 1 as the first row; no
  segment starts at section 3, where segment 1 ends, and the function raises
  ValueError instead of returning the reordered chain. Started from segment 2, the
  same chaining loop links the two segments.
\<close>

theorem reversed_segments_raise:
  "check_segment_connection [1] [1] reversed_wing reversed_tigl = Inl ValueError
   \<and> chain_segments [(2, 3, 1), (1, 2, 2)] (1, 2, 2) [2] = Inr [(2, 3, 1)]"
  by (simp add: conn_defs reversed_wing_def reversed_tigl_def)

text \<open>
  C2, as the claim stands: two runs of \<open>wing_inertia\<close> on a wing of one segment
  whose supplied mass is 100. With \<open>SPACING = -1\<close>, and with \<open>SPACING = 1\<close> and
  the segment length \<open>-5/2\<close>, the range of the spanwise stations is empty: the
  function returns with no node, so the mass given to the sampled points is 0 and not
  100. The third run is a wing with a symmetry plane, whose own column of
  \<open>mass_seg_i\<close> holds 8 and whose mirrored column holds 16: the eight mirrored nodes
  share 8, the mass of the wing's own column; the 16 is never read.
\<close>

theorem negative_spacing_samples_no_node:
  "wing_inertia 0 (- 1) 0 (0, 0, 0) [[100, 100]] (one_wing 0) flat_tigl = Inr no_nodes
   \<and> wing_inertia 0 1 0 (0, 0, 0) [[100, 100]]
        ((one_wing 0)\<lparr>wing_seg_length := [[- 5 / 2, 0]]\<rparr>) flat_tigl = Inr no_nodes
   \<and> supplied_mass [[100, 100]] (int 1 - 1) (int (0 + 1 + 0) - 1) = 100
   \<and> sum_list (node_mass no_nodes) = 0
   \<and> supplied_mass [[8, 16]] (int 1 - 1) (int (0 + 1 + 1) - 1) = 16
   \<and> wing_inertia 0 1 0 (0, 0, 0) [[8, 16]] (one_wing 2) flat_tigl
       = Inr \<lparr>nodes = replicate 8 (0, 1, 0) @ replicate 8 (0, - 1, 0),
              inertia = \<lparr>Ixx = 16, Iyy = 0, Izz = 16, Ixy = 0, Iyz = 0, Ixz = 0\<rparr>,
              node_mass = replicate 8 1, mirror_mass = replicate 8 1\<rparr>"
proof -
  have c: "\<lceil>- 1 :: real\<rceil> = - 1" by (rule ceiling_unique) simp_all
  show ?thesis
    by (simp add: run_defs one_wing_def flat_tigl_def supplied_mass_def eval_nat_numeral c)
qed

text \<open>
  C2, amended: \<open>SPACING\<close> is positive, no segment length (for a fuselage, no
  perimeter either) is negative, and the symmetry codes are TiGL's 0 to 3. Then the cloud of every segment is non-empty; each of
  its points is given \<open>M\<close>, the mass of the segment in \<open>mass_seg_i\<close> divided by
  the number of points of the cloud; the six sums are weighted with that \<open>M\<close>; and
  the points of the segment together carry the mass of the segment. Over a component
  (all rows of a fuselage, the rows of a wing before the first segment number 0) and
  over the whole of \<open>fuselage_inertia\<close> and \<open>wing_inertia\<close>, one mass is recorded
  for every node and the masses add up to the masses of the segments in
  \<open>mass_seg_i\<close>. For a wing with a symmetry plane the mirrored points receive the
  same \<open>M\<close> once more, read from the wing's own column \<open>fuse + w + a - 1\<close>, where
  \<open>a\<close> is the number of wings with a symmetry plane before \<open>w\<close>. Real
  arithmetic, so the equalities are exact.
\<close>

theorem sampled_mass_is_segment_mass:
  assumes "0 < SPACING"
  shows "(list_all (list_all (\<lambda>l. 0 \<le> l)) (fuse_seg_length afg)
          \<and> list_all (list_all (\<lambda>l. 0 \<le> l)) (fuse_sec_per afg)
          \<and> fuse_segment SPACING cog mass_seg_i afg tigl f i (st, p0) = Inr (st', p0')
          \<longrightarrow> (\<exists>fx M. fx \<noteq> []
                \<and> M = supplied_mass mass_seg_i (int i - 1) (int f - 1) / real (length fx)
                \<and> nodes st' = nodes st @ fx
                \<and> node_mass st' = node_mass st @ replicate (length fx) M
                \<and> inertia st' = accumulate M cog fx (inertia st)
                \<and> real (length fx) * M = supplied_mass mass_seg_i (int i - 1) (int f - 1)))
       \<and> (list_all (list_all (\<lambda>l. 0 \<le> l)) (fuse_seg_length afg)
          \<and> list_all (list_all (\<lambda>l. 0 \<le> l)) (fuse_sec_per afg)
          \<and> fuse_segments SPACING cog mass_seg_i afg tigl f ids (fst0, fp0) = Inr (fst1, fp1)
          \<longrightarrow> (\<exists>new ms. nodes fst1 = nodes fst0 @ new \<and> node_mass fst1 = node_mass fst0 @ ms
                \<and> mirror_mass fst1 = mirror_mass fst0 \<and> length ms = length new
                \<and> sum_list ms = (\<Sum>i \<leftarrow> ids. supplied_mass mass_seg_i (int i - 1) (int f - 1))))
       \<and> (list_all (list_all (\<lambda>l. 0 \<le> l)) (wing_seg_length awg)
          \<and> py_nth (wing_sym awg) (int w - 1) = Inr code
          \<and> code \<le> 3
          \<and> wing_segment subd_c SPACING fuse cog mass_seg_i awg tigl zeta w a seg wst = Inr wst'
          \<longrightarrow> (\<exists>wx M. wx \<noteq> []
                \<and> M = supplied_mass mass_seg_i (int seg - 1) (int (fuse + w + a) - 1) / real (length wx)
                \<and> node_mass wst' = node_mass wst @ replicate (length wx) M
                \<and> real (length wx) * M
                    = supplied_mass mass_seg_i (int seg - 1) (int (fuse + w + a) - 1)
                \<and> (code = 0 \<longrightarrow> nodes wst' = nodes wst @ wx
                      \<and> mirror_mass wst' = mirror_mass wst
                      \<and> inertia wst' = accumulate M cog wx (inertia wst))
                \<and> (code \<noteq> 0 \<longrightarrow> (\<exists>s. wing_inertia_sym code = Inr s
                      \<and> nodes wst' = nodes wst @ wx @ mirrored s wx
                      \<and> mirror_mass wst' = mirror_mass wst @ replicate (length wx) M
                      \<and> inertia wst' = accumulate M cog (mirrored s wx)
                                         (accumulate M cog wx (inertia wst))))))
       \<and> (list_all (list_all (\<lambda>l. 0 \<le> l)) (wing_seg_length awg)
          \<and> py_nth (wing_sym awg) (int w - 1) = Inr code
          \<and> code \<le> 3
          \<and> wing_segments subd_c SPACING fuse cog mass_seg_i awg tigl zeta w a wids cst = Inr cst'
          \<longrightarrow> (\<exists>new ms mms. nodes cst' = nodes cst @ new \<and> node_mass cst' = node_mass cst @ ms
                \<and> mirror_mass cst' = mirror_mass cst @ mms
                \<and> length new = length ms + length mms
                \<and> length mms = (if code = 0 then 0 else length ms)
                \<and> sum_list ms = (\<Sum>i \<leftarrow> takeWhile (\<lambda>i. i \<noteq> 0) wids.
                                   supplied_mass mass_seg_i (int i - 1) (int (fuse + w + a) - 1))
                \<and> sum_list mms = (if code = 0 then 0 else sum_list ms)))
       \<and> (list_all (list_all (\<lambda>l. 0 \<le> l)) (fuse_seg_length afg)
          \<and> list_all (list_all (\<lambda>l. 0 \<le> l)) (fuse_sec_per afg)
          \<and> fuselage_inertia SPACING cog mass_seg_i afg tigl = Inr fres
          \<longrightarrow> length (node_mass fres) = length (nodes fres) \<and> mirror_mass fres = []
              \<and> sum_list (node_mass fres)
                  = (\<Sum>f \<leftarrow> [1 ..< f_nb afg + 1].
                       \<Sum>i \<leftarrow> map (\<lambda>(s0, s1, j). j) (f_seg_sec afg ! (f - 1)).
                         supplied_mass mass_seg_i (int i - 1) (int f - 1)))
       \<and> (list_all (list_all (\<lambda>l. 0 \<le> l)) (wing_seg_length awg)
          \<and> list_all (\<lambda>c. c \<le> 3) (wing_sym awg)
          \<and> wing_inertia subd_c SPACING fuse cog mass_seg_i awg tigl = Inr wres
          \<longrightarrow> length (nodes wres) = length (node_mass wres) + length (mirror_mass wres)
              \<and> sum_list (node_mass wres)
                  = (\<Sum>w \<leftarrow> [1 ..< w_nb awg + 1].
                       \<Sum>i \<leftarrow> takeWhile (\<lambda>i. i \<noteq> 0)
                              (map (\<lambda>(s0, s1, j). j) (w_seg_sec awg ! (w - 1))).
                         supplied_mass mass_seg_i (int i - 1)
                           (int (fuse + w + length (filter (\<lambda>v. wing_sym awg ! (v - 1) \<noteq> 0)
                                                      [1 ..< w])) - 1))
              \<and> sum_list (mirror_mass wres)
                  = (\<Sum>w \<leftarrow> [1 ..< w_nb awg + 1]. if wing_sym awg ! (w - 1) = 0 then 0 else
                       \<Sum>i \<leftarrow> takeWhile (\<lambda>i. i \<noteq> 0)
                              (map (\<lambda>(s0, s1, j). j) (w_seg_sec awg ! (w - 1))).
                         supplied_mass mass_seg_i (int i - 1)
                           (int (fuse + w + length (filter (\<lambda>v. wing_sym awg ! (v - 1) \<noteq> 0)
                                                      [1 ..< w])) - 1)))"
proof -
  have whole_f: "length (node_mass fres) = length (nodes fres) \<and> mirror_mass fres = []
              \<and> sum_list (node_mass fres)
                  = (\<Sum>f \<leftarrow> [1 ..< f_nb afg + 1].
                       \<Sum>i \<leftarrow> map (\<lambda>(s0, s1, j). j) (f_seg_sec afg ! (f - 1)).
                         supplied_mass mass_seg_i (int i - 1) (int f - 1))"
    if "list_all (list_all (\<lambda>l. 0 \<le> l)) (fuse_seg_length afg)
          \<and> list_all (list_all (\<lambda>l. 0 \<le> l)) (fuse_sec_per afg)
          \<and> fuselage_inertia SPACING cog mass_seg_i afg tigl = Inr fres"
    using that fuselage_inertia_shares [OF assms, of afg cog mass_seg_i tigl fres] by blast
  have whole_w: "length (nodes wres) = length (node_mass wres) + length (mirror_mass wres)
              \<and> sum_list (node_mass wres)
                  = (\<Sum>w \<leftarrow> [1 ..< w_nb awg + 1].
                       \<Sum>i \<leftarrow> takeWhile (\<lambda>i. i \<noteq> 0)
                              (map (\<lambda>(s0, s1, j). j) (w_seg_sec awg ! (w - 1))).
                         supplied_mass mass_seg_i (int i - 1)
                           (int (fuse + w + length (filter (\<lambda>v. wing_sym awg ! (v - 1) \<noteq> 0)
                                                      [1 ..< w])) - 1))
              \<and> sum_list (mirror_mass wres)
                  = (\<Sum>w \<leftarrow> [1 ..< w_nb awg + 1]. if wing_sym awg ! (w - 1) = 0 then 0 else
                       \<Sum>i \<leftarrow> takeWhile (\<lambda>i. i \<noteq> 0)
                              (map (\<lambda>(s0, s1, j). j) (w_seg_sec awg ! (w - 1))).
                         supplied_mass mass_seg_i (int i - 1)
                           (int (fuse + w + length (filter (\<lambda>v. wing_sym awg ! (v - 1) \<noteq> 0)
                                                      [1 ..< w])) - 1))"
    if "list_all (list_all (\<lambda>l. 0 \<le> l)) (wing_seg_length awg)
          \<and> list_all (\<lambda>c. c \<le> 3) (wing_sym awg)
          \<and> wing_inertia subd_c SPACING fuse cog mass_seg_i awg tigl = Inr wres"
    using that wing_inertia_shares [OF assms, of awg subd_c fuse cog mass_seg_i tigl wres] by blast
  show ?thesis
  proof (intro conjI impI)
    assume h: "list_all (list_all (\<lambda>l. 0 \<le> l)) (fuse_seg_length afg)
            \<and> list_all (list_all (\<lambda>l. 0 \<le> l)) (fuse_sec_per afg)
            \<and> fuse_segment SPACING cog mass_seg_i afg tigl f i (st, p0) = Inr (st', p0')"
    let ?m = "supplied_mass mass_seg_i (int i - 1) (int f - 1)"
    from h fuse_segment_result [OF _ assms, of cog mass_seg_i afg tigl f i st p0 st' p0']
    obtain fx where ne: "fx \<noteq> []" and st': "st' = add_cloud ?m cog fx st" by blast
    show "\<exists>fx M. fx \<noteq> []
                  \<and> M = supplied_mass mass_seg_i (int i - 1) (int f - 1) / real (length fx)
                  \<and> nodes st' = nodes st @ fx
                  \<and> node_mass st' = node_mass st @ replicate (length fx) M
                  \<and> inertia st' = accumulate M cog fx (inertia st)
                  \<and> real (length fx) * M = supplied_mass mass_seg_i (int i - 1) (int f - 1)"
      apply (rule exI [of _ fx])
      apply (rule exI [of _ "?m / real (length fx)"])
      using ne by (simp add: st')
  next
    assume h: "list_all (list_all (\<lambda>l. 0 \<le> l)) (fuse_seg_length afg)
            \<and> list_all (list_all (\<lambda>l. 0 \<le> l)) (fuse_sec_per afg)
            \<and> fuse_segments SPACING cog mass_seg_i afg tigl f ids (fst0, fp0) = Inr (fst1, fp1)"
    then show "\<exists>new ms. nodes fst1 = nodes fst0 @ new \<and> node_mass fst1 = node_mass fst0 @ ms
                  \<and> mirror_mass fst1 = mirror_mass fst0 \<and> length ms = length new
                  \<and> sum_list ms = (\<Sum>i \<leftarrow> ids. supplied_mass mass_seg_i (int i - 1) (int f - 1))"
      using fuse_segments_shares [OF assms, of afg cog mass_seg_i tigl f ids fst0 fp0 fst1 fp1]
      by blast
  next
    assume h: "list_all (list_all (\<lambda>l. 0 \<le> l)) (wing_seg_length awg)
            \<and> py_nth (wing_sym awg) (int w - 1) = Inr code
            \<and> code \<le> 3
            \<and> wing_segment subd_c SPACING fuse cog mass_seg_i awg tigl zeta w a seg wst = Inr wst'"
    let ?m = "supplied_mass mass_seg_i (int seg - 1) (int (fuse + w + a) - 1)"
    from h wing_segment_shares [OF _ assms, of subd_c fuse cog mass_seg_i awg tigl zeta w a seg wst wst' code]
    obtain wx where ne: "wx \<noteq> []"
      and r0: "code = 0 \<longrightarrow> wst' = add_cloud ?m cog wx wst"
      and r1: "code \<noteq> 0 \<longrightarrow> (\<exists>s. wing_inertia_sym code = Inr s
              \<and> wst' = add_mirrored_cloud ?m cog (mirrored s wx) (add_cloud ?m cog wx wst))"
      by blast
    show "\<exists>wx M. wx \<noteq> []
                  \<and> M = supplied_mass mass_seg_i (int seg - 1) (int (fuse + w + a) - 1) / real (length wx)
                  \<and> node_mass wst' = node_mass wst @ replicate (length wx) M
                  \<and> real (length wx) * M
                      = supplied_mass mass_seg_i (int seg - 1) (int (fuse + w + a) - 1)
                  \<and> (code = 0 \<longrightarrow> nodes wst' = nodes wst @ wx
                        \<and> mirror_mass wst' = mirror_mass wst
                        \<and> inertia wst' = accumulate M cog wx (inertia wst))
                  \<and> (code \<noteq> 0 \<longrightarrow> (\<exists>s. wing_inertia_sym code = Inr s
                        \<and> nodes wst' = nodes wst @ wx @ mirrored s wx
                        \<and> mirror_mass wst' = mirror_mass wst @ replicate (length wx) M
                        \<and> inertia wst' = accumulate M cog (mirrored s wx)
                                           (accumulate M cog wx (inertia wst))))"
    proof (cases "code = 0")
      case True
      with r0 have w': "wst' = add_cloud ?m cog wx wst" by simp
      show ?thesis
        apply (rule exI [of _ wx])
        apply (rule exI [of _ "?m / real (length wx)"])
        using ne True by (simp add: w')
    next
      case False
      with r1 obtain s where s: "wing_inertia_sym code = Inr s"
        and w': "wst' = add_mirrored_cloud ?m cog (mirrored s wx) (add_cloud ?m cog wx wst)"
        by blast
      show ?thesis
        apply (rule exI [of _ wx])
        apply (rule exI [of _ "?m / real (length wx)"])
        using ne False s by (simp add: w')
    qed
  next
    assume h: "list_all (list_all (\<lambda>l. 0 \<le> l)) (wing_seg_length awg)
            \<and> py_nth (wing_sym awg) (int w - 1) = Inr code
            \<and> code \<le> 3
            \<and> wing_segments subd_c SPACING fuse cog mass_seg_i awg tigl zeta w a wids cst = Inr cst'"
    then show "\<exists>new ms mms. nodes cst' = nodes cst @ new \<and> node_mass cst' = node_mass cst @ ms
                  \<and> mirror_mass cst' = mirror_mass cst @ mms
                  \<and> length new = length ms + length mms
                  \<and> length mms = (if code = 0 then 0 else length ms)
                  \<and> sum_list ms = (\<Sum>i \<leftarrow> takeWhile (\<lambda>i. i \<noteq> 0) wids.
                                     supplied_mass mass_seg_i (int i - 1) (int (fuse + w + a) - 1))
                  \<and> sum_list mms = (if code = 0 then 0 else sum_list ms)"
      using wing_segments_shares [OF assms, of awg w code subd_c fuse cog mass_seg_i tigl zeta a wids cst cst']
      by blast
  next
    assume "list_all (list_all (\<lambda>l. 0 \<le> l)) (fuse_seg_length afg)
            \<and> list_all (list_all (\<lambda>l. 0 \<le> l)) (fuse_sec_per afg)
            \<and> fuselage_inertia SPACING cog mass_seg_i afg tigl = Inr fres"
    from whole_f [OF this] show "length (node_mass fres) = length (nodes fres)"
      and "mirror_mass fres = []"
      and "sum_list (node_mass fres)
                    = (\<Sum>f \<leftarrow> [1 ..< f_nb afg + 1].
                         \<Sum>i \<leftarrow> map (\<lambda>(s0, s1, j). j) (f_seg_sec afg ! (f - 1)).
                           supplied_mass mass_seg_i (int i - 1) (int f - 1))"
      by blast+
  next
    assume "list_all (list_all (\<lambda>l. 0 \<le> l)) (wing_seg_length awg)
            \<and> list_all (\<lambda>c. c \<le> 3) (wing_sym awg)
            \<and> wing_inertia subd_c SPACING fuse cog mass_seg_i awg tigl = Inr wres"
    from whole_w [OF this] show "length (nodes wres) = length (node_mass wres) + length (mirror_mass wres)"
      and "sum_list (node_mass wres)
                    = (\<Sum>w \<leftarrow> [1 ..< w_nb awg + 1].
                         \<Sum>i \<leftarrow> takeWhile (\<lambda>i. i \<noteq> 0)
                                (map (\<lambda>(s0, s1, j). j) (w_seg_sec awg ! (w - 1))).
                           supplied_mass mass_seg_i (int i - 1)
                             (int (fuse + w + length (filter (\<lambda>v. wing_sym awg ! (v - 1) \<noteq> 0)
                                                        [1 ..< w])) - 1))"
      and "sum_list (mirror_mass wres)
                    = (\<Sum>w \<leftarrow> [1 ..< w_nb awg + 1]. if wing_sym awg ! (w - 1) = 0 then 0 else
                         \<Sum>i \<leftarrow> takeWhile (\<lambda>i. i \<noteq> 0)
                                (map (\<lambda>(s0, s1, j). j) (w_seg_sec awg ! (w - 1))).
                           supplied_mass mass_seg_i (int i - 1)
                             (int (fuse + w + length (filter (\<lambda>v. wing_sym awg ! (v - 1) \<noteq> 0)
                                                        [1 ..< w])) - 1))"
      by blast+
  qed
qed

theorem sampled_mass_is_segment_mass_witness:
  "(case fuse_segment 1 (0, 0, 0) [[100, 100]] one_fuselage flat_tigl 1 1 (no_nodes, None) of
      Inl e \<Rightarrow> False
    | Inr (st', p0') \<Rightarrow> nodes st' \<noteq> []
        \<and> node_mass st' = replicate (length (nodes st')) (100 / real (length (nodes st')))
        \<and> inertia st' = accumulate (100 / real (length (nodes st'))) (0, 0, 0) (nodes st') zero_tensor
        \<and> sum_list (node_mass st') = 100)
   \<and> (case fuse_segments 1 (0, 0, 0) [[100, 100]] one_fuselage flat_tigl 1 [1] (no_nodes, None) of
      Inl e \<Rightarrow> False
    | Inr (st', p0') \<Rightarrow> sum_list (node_mass st') = 100 \<and> length (node_mass st') = length (nodes st'))
   \<and> (case wing_segment 0 1 0 (0, 0, 0) [[100, 100]] (one_wing 2) flat_tigl 1 1 0 1 no_nodes of
      Inl e \<Rightarrow> False
    | Inr st' \<Rightarrow> node_mass st' \<noteq> [] \<and> mirror_mass st' = node_mass st'
        \<and> node_mass st' = replicate (length (node_mass st')) (100 / real (length (node_mass st')))
        \<and> length (nodes st') = 2 * length (node_mass st')
        \<and> sum_list (node_mass st') = 100)
   \<and> (case wing_segments 0 1 0 (0, 0, 0) [[100, 100]] (one_wing 2) flat_tigl 1 1 0 [1] no_nodes of
      Inl e \<Rightarrow> False
    | Inr st' \<Rightarrow> sum_list (node_mass st') = 100 \<and> sum_list (mirror_mass st') = 100
        \<and> length (nodes st') = length (node_mass st') + length (mirror_mass st'))
   \<and> (case fuselage_inertia 1 (0, 0, 0) [[100, 100]] one_fuselage flat_tigl of
      Inl e \<Rightarrow> False
    | Inr st' \<Rightarrow> sum_list (node_mass st') = 100 \<and> length (node_mass st') = length (nodes st'))
   \<and> (case wing_inertia 0 1 0 (0, 0, 0) [[100, 100]] (one_wing 2) flat_tigl of
      Inl e \<Rightarrow> False
    | Inr st' \<Rightarrow> sum_list (node_mass st') = 100 \<and> sum_list (mirror_mass st') = 100
        \<and> length (nodes st') = length (node_mass st') + length (mirror_mass st'))"
proof -
  obtain fst' p0' where
    fs: "fuse_segments 1 (0, 0, 0) [[100, 100]] one_fuselage flat_tigl 1 [1] (no_nodes, None)
          = Inr (fst', p0')"
    using one_fuselage_runs by blast
  then have f: "fuse_segment 1 (0, 0, 0) [[100, 100]] one_fuselage flat_tigl 1 1 (no_nodes, None)
          = Inr (fst', p0')"
    by (auto simp: ebind_eq_Inr)
  have fi: "fuselage_inertia 1 (0, 0, 0) [[100, 100]] one_fuselage flat_tigl = Inr fst'"
    by (rule single_fuselage_inertia [OF _ _ fs]) (simp_all add: one_fuselage_def)
  obtain wst' where
    ws: "wing_segments 0 1 0 (0, 0, 0) [[100, 100]] (one_wing 2) flat_tigl 1 1 0 [1] no_nodes
          = Inr wst'"
    using one_wing_runs [of 2] by auto
  then have w: "wing_segment 0 1 0 (0, 0, 0) [[100, 100]] (one_wing 2) flat_tigl 1 1 0 1 no_nodes
          = Inr wst'"
    by (auto simp: ebind_eq_Inr)
  have wi: "wing_inertia 0 1 0 (0, 0, 0) [[100, 100]] (one_wing 2) flat_tigl = Inr wst'"
    by (rule single_wing_inertia [OF _ _ _ ws]) (simp_all add: one_wing_def)
  have pos: "(0::real) < 1" by simp
  have sym: "py_nth (wing_sym (one_wing 2)) (int 1 - 1) = Inr 2"
    by (simp add: one_wing_def py_nth_def py_index_def)
  have le: "(2::nat) \<le> 3" by simp
  have codes: "list_all (\<lambda>c. c \<le> 3) (wing_sym (one_wing 2))" by (simp add: one_wing_def)
  have nn: "list_all (list_all (\<lambda>l. 0 \<le> l)) (fuse_seg_length one_fuselage)"
    "list_all (list_all (\<lambda>l. 0 \<le> l)) (fuse_sec_per one_fuselage)"
    "list_all (list_all (\<lambda>l. 0 \<le> l)) (wing_seg_length (one_wing 2))"
    by (simp_all add: one_fuselage_def one_wing_def)
  note t = sampled_mass_is_segment_mass [OF pos, where afg = one_fuselage and cog = "(0, 0, 0)"
      and mass_seg_i = "[[100, 100]]" and tigl = flat_tigl and f = 1 and i = 1
      and st = no_nodes and ?p0.0 = None and st' = fst' and p0' = p0'
      and ids = "[1]" and ?fst0.0 = no_nodes and ?fp0.0 = None and ?fst1.0 = fst' and ?fp1.0 = p0'
      and awg = "one_wing 2" and w = 1 and code = 2 and subd_c = 0 and fuse = 0 and zeta = 1
      and a = 0 and seg = 1 and wst = no_nodes and wst' = wst'
      and wids = "[1]" and cst = no_nodes and cst' = wst' and fres = fst' and wres = wst']
  note ev = supplied_mass_def np2_def py_nth_def py_index_def no_nodes_def
  from t [THEN conjunct1, THEN mp, OF conjI [OF nn(1) conjI [OF nn(2) f]]]
  have c1: "nodes fst' \<noteq> []
        \<and> node_mass fst' = replicate (length (nodes fst')) (100 / real (length (nodes fst')))
        \<and> inertia fst' = accumulate (100 / real (length (nodes fst'))) (0, 0, 0) (nodes fst') zero_tensor
        \<and> sum_list (node_mass fst') = 100"
    by (auto simp: ev sum_list_replicate)
  from t [THEN conjunct2, THEN conjunct1, THEN mp, OF conjI [OF nn(1) conjI [OF nn(2) fs]]]
  have c2: "sum_list (node_mass fst') = 100 \<and> length (node_mass fst') = length (nodes fst')"
    by (auto simp: ev)
  from t [THEN conjunct2, THEN conjunct2, THEN conjunct1, THEN mp,
      OF conjI [OF nn(3) conjI [OF sym conjI [OF le w]]]]
  have c3: "node_mass wst' \<noteq> [] \<and> mirror_mass wst' = node_mass wst'
        \<and> node_mass wst' = replicate (length (node_mass wst')) (100 / real (length (node_mass wst')))
        \<and> length (nodes wst') = 2 * length (node_mass wst')
        \<and> sum_list (node_mass wst') = 100"
    by (auto simp: ev sum_list_replicate)
  from t [THEN conjunct2, THEN conjunct2, THEN conjunct2, THEN conjunct1, THEN mp,
      OF conjI [OF nn(3) conjI [OF sym conjI [OF le ws]]]]
  have c4: "sum_list (node_mass wst') = 100 \<and> sum_list (mirror_mass wst') = 100
        \<and> length (nodes wst') = length (node_mass wst') + length (mirror_mass wst')"
    by (auto simp: ev)
  from t [THEN conjunct2, THEN conjunct2, THEN conjunct2, THEN conjunct2, THEN conjunct1, THEN mp,
      OF conjI [OF nn(1) conjI [OF nn(2) fi]]]
  have c5: "sum_list (node_mass fst') = 100 \<and> length (node_mass fst') = length (nodes fst')"
    by (simp add: ev one_fuselage_def)
  from t [THEN conjunct2, THEN conjunct2, THEN conjunct2, THEN conjunct2, THEN conjunct2, THEN mp,
      OF conjI [OF nn(3) conjI [OF codes wi]]]
  have c6: "sum_list (node_mass wst') = 100 \<and> sum_list (mirror_mass wst') = 100
        \<and> length (nodes wst') = length (node_mass wst') + length (mirror_mass wst')"
    by (simp add: ev one_wing_def)
  show ?thesis unfolding fs f ws w fi wi using c1 c2 c3 c4 c5 c6 by simp
qed

text \<open>
  C3 (the code departs from the claim). One engine of mass 1 placed at \<open>(1, 0, 2)\<close>,
  centre of gravity at the origin: \<open>engine_inertia\<close> returns \<open>Ixz = 1\<close>, which is
  \<open>mass * dx * dx\<close>, while the sum of \<open>mass * dx * dz\<close> the claim states is 2.
\<close>

theorem engine_inertia_Ixz_uses_dx_twice:
  "engine_inertia (0, 0, 0) \<lparr>NE = 1, EN_PLACEMENT = [(1, 0, 2)], en_mass = 1\<rparr>
     = Inr \<lparr>Ixx = 4, Iyy = 5, Izz = 1, Ixy = 0, Iyz = 0, Ixz = 1\<rparr>
   \<and> Ixz_parallel_axis (0, 0, 0) \<lparr>NE = 1, EN_PLACEMENT = [(1, 0, 2)], en_mass = 1\<rparr> = 2"
  by (simp add: engine_inertia_def Ixz_parallel_axis_def zero_tensor_def py_nth_def py_index_def)

text \<open>
  C4 (the code departs from the claim). Two wings of one segment each: the reordered
  row of wing 2 runs from section 2 to section 3, and the section sequence returned
  for wing 2 is 1, 3: line 114 starts it with \<open>seg_sec_reordered[0, 0, 0]\<close>, the
  root section of wing 1, where the claim has the root section 2 of wing 2 itself.
\<close>

theorem section_index_starts_at_wing_one:
  "(case check_segment_connection [1, 1] [1, 1] two_wings two_wings_tigl of
      Inl e \<Rightarrow> False
    | Inr r \<Rightarrow> seg_sec_reordered r = [[(1, 2, 1)], [(2, 3, 1)]]
              \<and> sec_index r = [[1, 2], [1, 3]] \<and> sec_nb r = [2, 2])"
  by (simp add: conn_defs two_wings_def two_wings_tigl_def numeral_2_eq_2)

text \<open>
  C5. A wing with a symmetry plane (code 1, 2 or 3). The nodes \<open>wing_inertia\<close>
  adds for a segment of the wing are its sampled cloud followed by the same points
  with one coordinate negated: z for code 1 (plane x-y), y for code 2 (plane x-z), x
  for code 3 (plane y-z); the other two coordinates are unchanged. The same holds
  segment after segment over the rows of the wing. In \<open>geom_eval\<close> the column of the
  mirrored wing is the wing's own column with that one coordinate negated.
\<close>

theorem mirrored_points_flip_one_coordinate:
  assumes "py_nth (wing_sym awg) (int w - 1) = Inr code"
    and "code = 1 \<or> code = 2 \<or> code = 3"
  shows "(wing_segment subd_c SPACING fuse cog mass_seg_i awg tigl zeta w a seg st = Inr st' \<longrightarrow>
           (\<exists>wx mass.
              wing_segment_cloud subd_c SPACING fuse mass_seg_i awg tigl zeta w a seg = Inr (wx, mass)
            \<and> (code = 1 \<longrightarrow> nodes st' = nodes st @ wx @ map (\<lambda>(x, y, z). (x, y, - z)) wx)
            \<and> (code = 2 \<longrightarrow> nodes st' = nodes st @ wx @ map (\<lambda>(x, y, z). (x, - y, z)) wx)
            \<and> (code = 3 \<longrightarrow> nodes st' = nodes st @ wx @ map (\<lambda>(x, y, z). (- x, y, z)) wx)))
       \<and> (wing_segments subd_c SPACING fuse cog mass_seg_i awg tigl zeta w a ids wst = Inr wst' \<longrightarrow>
           (\<exists>clouds.
              emap (wing_segment_cloud subd_c SPACING fuse mass_seg_i awg tigl zeta w a)
                (takeWhile (\<lambda>i. i \<noteq> 0) ids) = Inr clouds
            \<and> nodes wst' = nodes wst @ concat (map (\<lambda>(wx, mass). wx @
                 map (\<lambda>(x, y, z). (if code = 3 then - x else x, if code = 2 then - y else y,
                                   if code = 1 then - z else z)) wx) clouds)))
       \<and> ebind (wing_inertia_sym 1) (\<lambda>s. Inr (mirrored s ps)) = Inr (map (\<lambda>(x, y, z). (x, y, - z)) ps)
       \<and> ebind (wing_inertia_sym 2) (\<lambda>s. Inr (mirrored s ps)) = Inr (map (\<lambda>(x, y, z). (x, - y, z)) ps)
       \<and> ebind (wing_inertia_sym 3) (\<lambda>s. Inr (mirrored s ps)) = Inr (map (\<lambda>(x, y, z). (- x, y, z)) ps)
       \<and> (1 \<le> i \<and> i < ncols \<longrightarrow>
            geom_eval_mirror ncols 1 i arr
              = Inr (map (\<lambda>row. row[i := (case row ! (i - 1) of (x, y, z) \<Rightarrow> (x, y, - z))]) arr)
          \<and> geom_eval_mirror ncols 2 i arr
              = Inr (map (\<lambda>row. row[i := (case row ! (i - 1) of (x, y, z) \<Rightarrow> (x, - y, z))]) arr)
          \<and> geom_eval_mirror ncols 3 i arr
              = Inr (map (\<lambda>row. row[i := (case row ! (i - 1) of (x, y, z) \<Rightarrow> (- x, y, z))]) arr))"
proof -
  from assms(2) have nz: "code \<noteq> 0" by auto
  have seg: "\<exists>wx mass.
              wing_segment_cloud subd_c SPACING fuse mass_seg_i awg tigl zeta w a seg = Inr (wx, mass)
            \<and> (code = 1 \<longrightarrow> nodes st' = nodes st @ wx @ map (\<lambda>(x, y, z). (x, y, - z)) wx)
            \<and> (code = 2 \<longrightarrow> nodes st' = nodes st @ wx @ map (\<lambda>(x, y, z). (x, - y, z)) wx)
            \<and> (code = 3 \<longrightarrow> nodes st' = nodes st @ wx @ map (\<lambda>(x, y, z). (- x, y, z)) wx)"
    if run: "wing_segment subd_c SPACING fuse cog mass_seg_i awg tigl zeta w a seg st = Inr st'"
  proof -
    from wing_segment_result [OF run assms(1)] nz obtain wx mass s where
      c: "wing_segment_cloud subd_c SPACING fuse mass_seg_i awg tigl zeta w a seg = Inr (wx, mass)"
      and s: "wing_inertia_sym code = Inr s"
      and st': "st' = add_mirrored_cloud mass cog (mirrored s wx) (add_cloud mass cog wx st)"
      by blast
    have n: "nodes st' = nodes st @ wx @ mirrored s wx" by (simp add: st')
    show ?thesis
      using wing_inertia_sym_cases [OF s] c n
      by (intro exI [of _ wx] exI [of _ mass]) (auto simp: mirrored_flip)
  qed
  have rest: "ebind (wing_inertia_sym 1) (\<lambda>s. Inr (mirrored s ps)) = Inr (map (\<lambda>(x, y, z). (x, y, - z)) ps)
       \<and> ebind (wing_inertia_sym 2) (\<lambda>s. Inr (mirrored s ps)) = Inr (map (\<lambda>(x, y, z). (x, - y, z)) ps)
       \<and> ebind (wing_inertia_sym 3) (\<lambda>s. Inr (mirrored s ps)) = Inr (map (\<lambda>(x, y, z). (- x, y, z)) ps)"
    by (simp add: wing_inertia_sym_def mirrored_def)
  have geom: "geom_eval_mirror ncols 1 i arr
              = Inr (map (\<lambda>row. row[i := (case row ! (i - 1) of (x, y, z) \<Rightarrow> (x, y, - z))]) arr)
          \<and> geom_eval_mirror ncols 2 i arr
              = Inr (map (\<lambda>row. row[i := (case row ! (i - 1) of (x, y, z) \<Rightarrow> (x, - y, z))]) arr)
          \<and> geom_eval_mirror ncols 3 i arr
              = Inr (map (\<lambda>row. row[i := (case row ! (i - 1) of (x, y, z) \<Rightarrow> (- x, y, z))]) arr)"
    if "1 \<le> i \<and> i < ncols"
    using that by (simp add: geom_eval_mirror_def geom_eval_sym_def)
  from seg wing_segments_nodes [OF assms(1) nz] rest geom show ?thesis by blast
qed

theorem mirrored_points_flip_one_coordinate_witness:
  "wing_segment 0 1 0 (0, 0, 0) [[8, 8]] (one_wing 2) skew_tigl 1 1 0 1 no_nodes
     = Inr \<lparr>nodes = replicate 8 (1, 2, 3) @ replicate 8 (1, - 2, 3),
            inertia = \<lparr>Ixx = 208, Iyy = 160, Izz = 80, Ixy = 0, Iyz = 0, Ixz = 48\<rparr>,
            node_mass = replicate 8 1, mirror_mass = replicate 8 1\<rparr>
   \<and> wing_segments 0 1 0 (0, 0, 0) [[8, 8]] (one_wing 2) skew_tigl 1 1 0 [1] no_nodes
     = Inr \<lparr>nodes = replicate 8 (1, 2, 3) @ replicate 8 (1, - 2, 3),
            inertia = \<lparr>Ixx = 208, Iyy = 160, Izz = 80, Ixy = 0, Iyz = 0, Ixz = 48\<rparr>,
            node_mass = replicate 8 1, mirror_mass = replicate 8 1\<rparr>
   \<and> wing_inertia 0 1 0 (0, 0, 0) [[8, 8]] (one_wing 2) skew_tigl
     = Inr \<lparr>nodes = replicate 8 (1, 2, 3) @ replicate 8 (1, - 2, 3),
            inertia = \<lparr>Ixx = 208, Iyy = 160, Izz = 80, Ixy = 0, Iyz = 0, Ixz = 48\<rparr>,
            node_mass = replicate 8 1, mirror_mass = replicate 8 1\<rparr>
   \<and> geom_eval_mirror 2 2 1 [[(1, 2, 3), (0, 0, 0)]] = Inr [[(1, 2, 3), (1, - 2, 3)]]"
proof -
  have sym: "py_nth (wing_sym (one_wing 2)) (int 1 - 1) = Inr 2"
    by (simp add: one_wing_def py_nth_def py_index_def)
  have two: "(2::nat) = 1 \<or> (2::nat) = 2 \<or> (2::nat) = 3" by simp
  have segs: "wing_segments 0 1 0 (0, 0, 0) [[8, 8]] (one_wing 2) skew_tigl 1 1 0 [1] no_nodes
     = Inr \<lparr>nodes = replicate 8 (1, 2, 3) @ replicate 8 (1, - 2, 3),
            inertia = \<lparr>Ixx = 208, Iyy = 160, Izz = 80, Ixy = 0, Iyz = 0, Ixz = 48\<rparr>,
            node_mass = replicate 8 1, mirror_mass = replicate 8 1\<rparr>"
    unfolding wing_segments.simps skew_wing_segment by simp
  have whole: "wing_inertia 0 1 0 (0, 0, 0) [[8, 8]] (one_wing 2) skew_tigl
     = Inr \<lparr>nodes = replicate 8 (1, 2, 3) @ replicate 8 (1, - 2, 3),
            inertia = \<lparr>Ixx = 208, Iyy = 160, Izz = 80, Ixy = 0, Iyz = 0, Ixz = 48\<rparr>,
            node_mass = replicate 8 1, mirror_mass = replicate 8 1\<rparr>"
    by (rule single_wing_inertia [OF _ _ _ segs]) (simp_all add: one_wing_def)
  from mirrored_points_flip_one_coordinate [OF sym two, where subd_c = 0 and SPACING = 1
      and fuse = 0 and cog = "(0, 0, 0)" and mass_seg_i = "[[8, 8]]" and tigl = skew_tigl
      and zeta = 1 and a = 0 and seg = 1 and st = no_nodes and ids = "[1]" and wst = no_nodes
      and i = 1 and ncols = 2 and arr = "[[(1, 2, 3), (0, 0, 0)]]"]
    skew_wing_segment segs whole
  show ?thesis by simp
qed

text \<open>
  C6. A segment of a wing with a symmetry plane (code 1, 2 or 3), its mass in
  \<open>mass_seg_i\<close> not negative. \<open>wing_inertia\<close> first adds the six sums of the
  sampled cloud (giving \<open>t1\<close>), then the same six sums, with the same \<open>M\<close>, of
  the mirrored cloud. The second step adds a non-negative amount to \<open>Ixx\<close>, \<open>Iyy\<close> and \<open>Izz\<close>. For the
  plane x-z (code 2) and a centre of gravity in that plane, it adds to \<open>Ixy\<close> and
  \<open>Iyz\<close> the negatives of what the first step added, and to \<open>Ixz\<close> and to the
  diagonal entries the same amounts as the first step. The planes x-y (code 1) and y-z
  (code 3) behave alike with their own pairs of entries.
\<close>

theorem mirrored_inertia_signs:
  assumes "py_nth (wing_sym awg) (int w - 1) = Inr code"
    and "code = 1 \<or> code = 2 \<or> code = 3"
    and "wing_segment subd_c SPACING fuse cog mass_seg_i awg tigl zeta w a i st = Inr st'"
    and "0 \<le> supplied_mass mass_seg_i (int i - 1) (int (fuse + w + a) - 1)"
  shows "\<exists>wx mass s t1.
           wing_segment_cloud subd_c SPACING fuse mass_seg_i awg tigl zeta w a i = Inr (wx, mass)
         \<and> wing_inertia_sym code = Inr s
         \<and> t1 = accumulate (mass / real (length wx)) cog wx (inertia st)
         \<and> inertia st' = accumulate (mass / real (length wx)) cog (mirrored s wx) t1
         \<and> Ixx t1 \<le> Ixx (inertia st') \<and> Iyy t1 \<le> Iyy (inertia st') \<and> Izz t1 \<le> Izz (inertia st')
         \<and> (code = 2 \<and> fst (snd cog) = 0 \<longrightarrow>
               Ixy (inertia st') - Ixy t1 = - (Ixy t1 - Ixy (inertia st))
             \<and> Iyz (inertia st') - Iyz t1 = - (Iyz t1 - Iyz (inertia st))
             \<and> Ixz (inertia st') - Ixz t1 = Ixz t1 - Ixz (inertia st)
             \<and> Ixx (inertia st') - Ixx t1 = Ixx t1 - Ixx (inertia st)
             \<and> Iyy (inertia st') - Iyy t1 = Iyy t1 - Iyy (inertia st)
             \<and> Izz (inertia st') - Izz t1 = Izz t1 - Izz (inertia st))
         \<and> (code = 1 \<and> snd (snd cog) = 0 \<longrightarrow>
               Iyz (inertia st') - Iyz t1 = - (Iyz t1 - Iyz (inertia st))
             \<and> Ixz (inertia st') - Ixz t1 = - (Ixz t1 - Ixz (inertia st))
             \<and> Ixy (inertia st') - Ixy t1 = Ixy t1 - Ixy (inertia st))
         \<and> (code = 3 \<and> fst cog = 0 \<longrightarrow>
               Ixy (inertia st') - Ixy t1 = - (Ixy t1 - Ixy (inertia st))
             \<and> Ixz (inertia st') - Ixz t1 = - (Ixz t1 - Ixz (inertia st))
             \<and> Iyz (inertia st') - Iyz t1 = Iyz t1 - Iyz (inertia st))"
proof -
  from assms(2) have nz: "code \<noteq> 0" by auto
  from wing_segment_result [OF assms(3,1)] nz obtain wx mass s where
    c: "wing_segment_cloud subd_c SPACING fuse mass_seg_i awg tigl zeta w a i = Inr (wx, mass)"
    and s: "wing_inertia_sym code = Inr s"
    and st': "st' = add_mirrored_cloud mass cog (mirrored s wx) (add_cloud mass cog wx st)"
    by blast
  define M where "M = mass / real (length wx)"
  define t1 where "t1 = accumulate M cog wx (inertia st)"
  have t2: "inertia st' = accumulate M cog (mirrored s wx) t1"
    by (simp add: st' M_def t1_def)
  have "np2 mass_seg_i (int i - 1) (int (fuse + w + a) - 1) = Inr mass"
    using c unfolding wing_segment_cloud_def ebind_eq_Inr by auto
  then have "0 \<le> mass" using assms(4) by (simp add: supplied_mass_def)
  then have M: "0 \<le> M" by (simp add: M_def)
  have diag: "Ixx t1 \<le> Ixx (inertia st')" "Iyy t1 \<le> Iyy (inertia st')"
    "Izz t1 \<le> Izz (inertia st')"
    unfolding t2 using diag_nonneg [OF M] by blast+
  obtain gx gy gz where cog: "cog = (gx, gy, gz)" by (cases cog) auto
  have xz: "Ixy (inertia st') - Ixy t1 = - (Ixy t1 - Ixy (inertia st))
             \<and> Iyz (inertia st') - Iyz t1 = - (Iyz t1 - Iyz (inertia st))
             \<and> Ixz (inertia st') - Ixz t1 = Ixz t1 - Ixz (inertia st)
             \<and> Ixx (inertia st') - Ixx t1 = Ixx t1 - Ixx (inertia st)
             \<and> Iyy (inertia st') - Iyy t1 = Iyy t1 - Iyy (inertia st)
             \<and> Izz (inertia st') - Izz t1 = Izz t1 - Izz (inertia st)"
    if "code = 2" "fst (snd cog) = 0"
  proof -
    have "s = (1, -1, 1)" using wing_inertia_sym_cases [OF s] that by auto
    moreover have "cog = (gx, 0, gz)" using that cog by simp
    ultimately show ?thesis
      using diag_steps_xz [of M gx gz wx "accumulate M (gx, 0, gz) wx (inertia st)" "inertia st"]
      by (simp add: t2 t1_def)
  qed
  have xy: "Iyz (inertia st') - Iyz t1 = - (Iyz t1 - Iyz (inertia st))
             \<and> Ixz (inertia st') - Ixz t1 = - (Ixz t1 - Ixz (inertia st))
             \<and> Ixy (inertia st') - Ixy t1 = Ixy t1 - Ixy (inertia st)"
    if "code = 1" "snd (snd cog) = 0"
  proof -
    have "s = (1, 1, -1)" using wing_inertia_sym_cases [OF s] that by auto
    moreover have "cog = (gx, gy, 0)" using that cog by simp
    ultimately show ?thesis
      using diag_steps_xy [of M gx gy wx "accumulate M (gx, gy, 0) wx (inertia st)" "inertia st"]
      by (simp add: t2 t1_def)
  qed
  have yz: "Ixy (inertia st') - Ixy t1 = - (Ixy t1 - Ixy (inertia st))
             \<and> Ixz (inertia st') - Ixz t1 = - (Ixz t1 - Ixz (inertia st))
             \<and> Iyz (inertia st') - Iyz t1 = Iyz t1 - Iyz (inertia st)"
    if "code = 3" "fst cog = 0"
  proof -
    have "s = (-1, 1, 1)" using wing_inertia_sym_cases [OF s] that by auto
    moreover have "cog = (0, gy, gz)" using that cog by simp
    ultimately show ?thesis
      using diag_steps_yz [of M gy gz wx "accumulate M (0, gy, gz) wx (inertia st)" "inertia st"]
      by (simp add: t2 t1_def)
  qed
  show ?thesis
    apply (rule exI [of _ wx], rule exI [of _ mass], rule exI [of _ s], rule exI [of _ t1])
    using c s t2 diag xz xy yz unfolding t1_def M_def by blast
qed

theorem mirrored_inertia_signs_witness:
  "wing_segment 0 1 0 (0, 0, 0) [[8, 8]] (one_wing 2) skew_tigl 1 1 0 1 no_nodes
     = Inr \<lparr>nodes = replicate 8 (1, 2, 3) @ replicate 8 (1, - 2, 3),
            inertia = \<lparr>Ixx = 208, Iyy = 160, Izz = 80, Ixy = 0, Iyz = 0, Ixz = 48\<rparr>,
            node_mass = replicate 8 1, mirror_mass = replicate 8 1\<rparr>
   \<and> supplied_mass [[8, 8]] (int 1 - 1) (int (0 + 1 + 0) - 1) = 8
   \<and> accumulate 1 (0, 0, 0) (replicate 8 (1, 2, 3)) zero_tensor
       = \<lparr>Ixx = 104, Iyy = 80, Izz = 40, Ixy = 16, Iyz = 48, Ixz = 24\<rparr>"
proof -
  have sym: "py_nth (wing_sym (one_wing 2)) (int 1 - 1) = Inr 2"
    by (simp add: one_wing_def py_nth_def py_index_def)
  have two: "(2::nat) = 1 \<or> (2::nat) = 2 \<or> (2::nat) = 3" by simp
  have m: "supplied_mass [[8, 8]] (int 1 - 1) (int (0 + 1 + 0) - 1) = 8"
    by (simp add: supplied_mass_def np2_def py_nth_def py_index_def)
  then have m0: "0 \<le> supplied_mass [[8, 8]] (int 1 - 1) (int (0 + 1 + 0) - 1)" by simp
  have acc: "accumulate 1 (0, 0, 0) (replicate 8 (1, 2, 3)) zero_tensor
       = \<lparr>Ixx = 104, Iyy = 80, Izz = 40, Ixy = 16, Iyz = 48, Ixz = 24\<rparr>"
    by (simp add: accumulate_def zero_tensor_def eval_nat_numeral)
  from mirrored_inertia_signs [OF sym two skew_wing_segment m0] skew_wing_segment m acc
  show ?thesis by simp
qed



text \<open>
  C8. For a wing whose symmetry code is 0, \<open>wing_inertia\<close> does for each segment
  what the unmirrored accumulation alone does: the sampled cloud joins the nodes with
  its six sums, nothing else. Over the whole wing no mirrored node is made, and the
  counter \<open>a\<close> of mirrored wings stays as it is.
\<close>

theorem no_symmetry_no_mirrored_nodes:
  assumes "py_nth (wing_sym awg) (int w - 1) = Inr 0"
  shows "wing_segment subd_c SPACING fuse cog mass_seg_i awg tigl zeta w a i st
           = ebind (wing_segment_cloud subd_c SPACING fuse mass_seg_i awg tigl zeta w a i)
               (\<lambda>(wx, mass). Inr (add_cloud mass cog wx st))
       \<and> (wing_segments subd_c SPACING fuse cog mass_seg_i awg tigl zeta w a ids st = Inr st'
            \<longrightarrow> mirror_mass st' = mirror_mass st)
       \<and> wing_loop subd_c SPACING fuse cog mass_seg_i awg tigl (w # ws) a st
           = ebind (wing_zeta subd_c) (\<lambda>zeta'.
             ebind (py_nth (w_seg_sec awg) (int w - 1)) (\<lambda>rows.
             ebind (wing_segments subd_c SPACING fuse cog mass_seg_i awg tigl zeta' w a
                      (map (\<lambda>(s0, s1, j). j) rows) st)
               (wing_loop subd_c SPACING fuse cog mass_seg_i awg tigl ws a)))"
proof -
  have "wing_segment subd_c SPACING fuse cog mass_seg_i awg tigl zeta w a i st
           = ebind (wing_segment_cloud subd_c SPACING fuse mass_seg_i awg tigl zeta w a i)
               (\<lambda>(wx, mass). Inr (add_cloud mass cog wx st))"
    by (simp add: wing_segment_def assms split_def)
  moreover have "wing_loop subd_c SPACING fuse cog mass_seg_i awg tigl (w # ws) a st
           = ebind (wing_zeta subd_c) (\<lambda>zeta'.
             ebind (py_nth (w_seg_sec awg) (int w - 1)) (\<lambda>rows.
             ebind (wing_segments subd_c SPACING fuse cog mass_seg_i awg tigl zeta' w a
                      (map (\<lambda>(s0, s1, j). j) rows) st)
               (wing_loop subd_c SPACING fuse cog mass_seg_i awg tigl ws a)))"
    by (simp add: assms)
  ultimately show ?thesis
    using wing_segments_no_mirror [OF assms] by blast
qed

theorem no_symmetry_no_mirrored_nodes_witness:
  "(case wing_segments 0 1 0 (0, 0, 0) [[100, 100]] (one_wing 0) flat_tigl 1 1 0 [1] no_nodes of
      Inl e \<Rightarrow> False
    | Inr st' \<Rightarrow> mirror_mass st' = [])
   \<and> wing_segment 0 1 0 (0, 0, 0) [[100, 100]] (one_wing 0) flat_tigl 1 1 0 1 no_nodes
       = ebind (wing_segment_cloud 0 1 0 [[100, 100]] (one_wing 0) flat_tigl 1 1 0 1)
           (\<lambda>(wx, mass). Inr (add_cloud mass (0, 0, 0) wx no_nodes))"
proof -
  obtain st' where
    w: "wing_segments 0 1 0 (0, 0, 0) [[100, 100]] (one_wing 0) flat_tigl 1 1 0 [1] no_nodes
          = Inr st'"
    using one_wing_runs [of 0] by auto
  have sym: "py_nth (wing_sym (one_wing 0)) (int 1 - 1) = Inr 0"
    by (simp add: one_wing_def py_nth_def py_index_def)
  from no_symmetry_no_mirrored_nodes [OF sym, where subd_c = 0 and SPACING = 1 and fuse = 0
      and cog = "(0, 0, 0)" and mass_seg_i = "[[100, 100]]" and tigl = flat_tigl and zeta = 1
      and a = 0 and i = 1 and st = no_nodes and ids = "[1]" and st' = st'] w
  show ?thesis
    by (simp add: no_nodes_def)
qed

text \<open>
  C9. When \<open>getwingsegmentlength\<close> returns, the entry of segment \<open>j\<close> of wing
  \<open>i\<close> in \<open>awg.wing_seg_length\<close> is the Euclidean distance between rows
  \<open>j - 1\<close> and \<open>j\<close> of column \<open>i - 1\<close> of \<open>wing_center_section_point\<close>. It
  stands in column \<open>i + a - 1\<close>, where \<open>a\<close> is the number of wings with a
  symmetry plane before \<open>i\<close>, and for a wing with a symmetry plane in column
  \<open>i + a\<close> as well. That distance is not negative and does not change when the
  two points are swapped.
\<close>

theorem seg_length_symmetric:
  "0 \<le> seg_length p1 p2 \<and> seg_length p1 p2 = seg_length p2 p1
   \<and> (getwingsegmentlength awg wcsp = Inr lens
        \<and> 1 \<le> i \<and> i \<le> w_nb awg \<and> 1 \<le> j \<and> j \<le> wing_seg_nb awg ! (i - 1) \<longrightarrow>
        (\<exists>q1 q2. np2 wcsp (int j - 1) (int i - 1) = Inr q1
           \<and> np2 wcsp (int j) (int i - 1) = Inr q2
           \<and> np2 lens (int j - 1)
                (int (i + length (filter (\<lambda>w. wing_sym awg ! (w - 1) \<noteq> 0) [1 ..< i])) - 1)
               = Inr (seg_length q1 q2)
           \<and> (wing_sym awg ! (i - 1) \<noteq> 0 \<longrightarrow>
                np2 lens (int j - 1)
                  (int (i + length (filter (\<lambda>w. wing_sym awg ! (w - 1) \<noteq> 0) [1 ..< i])))
                 = Inr (seg_length q1 q2))
           \<and> 0 \<le> seg_length q1 q2 \<and> seg_length q1 q2 = seg_length q2 q1))"
proof -
  have sym: "0 \<le> seg_length a b \<and> seg_length a b = seg_length b a" for a b
    by (cases a, cases b) (simp add: seg_length_def power2_commute)
  have "\<exists>q1 q2. np2 wcsp (int j - 1) (int i - 1) = Inr q1
           \<and> np2 wcsp (int j) (int i - 1) = Inr q2
           \<and> np2 lens (int j - 1)
                (int (i + length (filter (\<lambda>w. wing_sym awg ! (w - 1) \<noteq> 0) [1 ..< i])) - 1)
               = Inr (seg_length q1 q2)
           \<and> (wing_sym awg ! (i - 1) \<noteq> 0 \<longrightarrow>
                np2 lens (int j - 1)
                  (int (i + length (filter (\<lambda>w. wing_sym awg ! (w - 1) \<noteq> 0) [1 ..< i])))
                 = Inr (seg_length q1 q2))
           \<and> 0 \<le> seg_length q1 q2 \<and> seg_length q1 q2 = seg_length q2 q1"
    if h: "getwingsegmentlength awg wcsp = Inr lens
        \<and> 1 \<le> i \<and> i \<le> w_nb awg \<and> 1 \<le> j \<and> j \<le> wing_seg_nb awg ! (i - 1)"
  proof -
    from h have run: "wing_lengths_loop awg wcsp [1 ..< w_nb awg + 1] 0
             (replicate (Max (set (wing_seg_nb awg))) (replicate (wing_nb awg) 0)) = Inr lens"
      by (auto simp: getwingsegmentlength_def split: if_splits)
    have rows: "\<forall>row \<in> set (replicate (Max (set (wing_seg_nb awg))) (replicate (wing_nb awg) (0::real))).
        length row = wing_nb awg"
      by simp
    have one: "(1::nat) \<le> 1" by simp
    from h have i1: "1 \<le> i" and i2: "i < w_nb awg + 1" and j1: "1 \<le> j"
      and j2: "j \<le> wing_seg_nb awg ! (i - 1)" by auto
    from wing_lengths_loop_entry [OF run rows one i1 i2 j1 j2] sym show ?thesis
      by (auto simp del: upt_Suc)
  qed
  with sym show ?thesis by blast
qed

theorem seg_length_symmetric_witness:
  "getwingsegmentlength (one_wing 2) [[(0, 0, 0)], [(0, 10, 0)]] = Inr [[10, 10]]
   \<and> np2 [[(0, 0, 0)], [(0, 10, 0)]] (int 1 - 1) (int 1 - 1) = Inr (0, 0, 0)
   \<and> np2 [[(0, 0, 0)], [(0, 10, 0)]] (int 1) (int 1 - 1) = Inr (0, 10, 0)
   \<and> seg_length (0, 0, 0) (0, 10, 0) = 10
   \<and> seg_length (0, 10, 0) (0, 0, 0) = 10"
proof -
  have ten: "seg_length (0, 0, 0) (0, 10, 0) = 10"
    using real_sqrt_abs [of 10] by (simp add: seg_length_def)
  have run: "getwingsegmentlength (one_wing 2) [[(0, 0, 0)], [(0, 10, 0)]] = Inr [[10, 10]]"
    using ten
    by (simp add: getwingsegmentlength_def one_wing_def np2_def np2_set_def py_nth_def
        py_index_def numeral_2_eq_2)
  have h: "getwingsegmentlength (one_wing 2) [[(0, 0, 0)], [(0, 10, 0)]] = Inr [[10, 10]]
      \<and> 1 \<le> (1::nat) \<and> 1 \<le> w_nb (one_wing 2) \<and> 1 \<le> (1::nat)
      \<and> 1 \<le> wing_seg_nb (one_wing 2) ! (1 - 1)"
    using run by (simp add: one_wing_def)
  from seg_length_symmetric [where ?p1.0 = "(0, 0, 0)" and ?p2.0 = "(0, 10, 0)"
      and awg = "one_wing 2" and wcsp = "[[(0, 0, 0)], [(0, 10, 0)]]" and lens = "[[10, 10]]"
      and i = 1 and j = 1, THEN conjunct2, THEN conjunct2, THEN mp, OF h] run ten
  show ?thesis
    by (auto simp: np2_def py_nth_def py_index_def)
qed



end
